theory Spec2Isabelle
  imports Complex_Main
begin

section \<open>Values, columns and tables\<close>

text \<open>
  A float64 cell is a finite number, one of the two infinities, or NaN (pandas' null of a
  numeric column). Finite values are real numbers: rounding and overflow are not modelled,
  and zero carries no sign. int64 columns are numeric columns whose cells are all finite.
\<close>

datatype fval = Fin real | PInf | NInf | NaN

fun isnan :: "fval \<Rightarrow> bool" where
  "isnan NaN = True"
| "isnan _ = False"

fun fneg :: "fval \<Rightarrow> fval" where
  "fneg (Fin a) = Fin (- a)"
| "fneg PInf = NInf"
| "fneg NInf = PInf"
| "fneg NaN = NaN"

fun fadd :: "fval \<Rightarrow> fval \<Rightarrow> fval" where
  "fadd NaN _ = NaN"
| "fadd _ NaN = NaN"
| "fadd (Fin a) (Fin b) = Fin (a + b)"
| "fadd PInf NInf = NaN"
| "fadd NInf PInf = NaN"
| "fadd PInf _ = PInf"
| "fadd _ PInf = PInf"
| "fadd NInf _ = NInf"
| "fadd _ NInf = NInf"

definition fsub :: "fval \<Rightarrow> fval \<Rightarrow> fval" where
  "fsub a b = fadd a (fneg b)"

fun fmul :: "fval \<Rightarrow> fval \<Rightarrow> fval" where
  "fmul NaN _ = NaN"
| "fmul _ NaN = NaN"
| "fmul (Fin a) (Fin b) = Fin (a * b)"
| "fmul (Fin a) PInf = (if a = 0 then NaN else if 0 < a then PInf else NInf)"
| "fmul (Fin a) NInf = (if a = 0 then NaN else if 0 < a then NInf else PInf)"
| "fmul PInf (Fin b) = (if b = 0 then NaN else if 0 < b then PInf else NInf)"
| "fmul NInf (Fin b) = (if b = 0 then NaN else if 0 < b then NInf else PInf)"
| "fmul PInf PInf = PInf"
| "fmul PInf NInf = NInf"
| "fmul NInf PInf = NInf"
| "fmul NInf NInf = PInf"

text \<open>True division as numpy and pandas perform it: a zero divisor raises nothing.\<close>

fun fdiv :: "fval \<Rightarrow> fval \<Rightarrow> fval" where
  "fdiv NaN _ = NaN"
| "fdiv _ NaN = NaN"
| "fdiv (Fin a) (Fin b) =
     (if b = 0 then (if a = 0 then NaN else if 0 < a then PInf else NInf) else Fin (a / b))"
| "fdiv (Fin a) PInf = Fin 0"
| "fdiv (Fin a) NInf = Fin 0"
| "fdiv PInf (Fin b) = (if 0 \<le> b then PInf else NInf)"
| "fdiv NInf (Fin b) = (if 0 \<le> b then NInf else PInf)"
| "fdiv PInf PInf = NaN"
| "fdiv PInf NInf = NaN"
| "fdiv NInf PInf = NaN"
| "fdiv NInf NInf = NaN"

fun fsqrt :: "fval \<Rightarrow> fval" where
  "fsqrt (Fin a) = (if a < 0 then NaN else Fin (sqrt a))"
| "fsqrt PInf = PInf"
| "fsqrt NInf = NaN"
| "fsqrt NaN = NaN"

fun fabs :: "fval \<Rightarrow> fval" where
  "fabs (Fin a) = Fin \<bar>a\<bar>"
| "fabs PInf = PInf"
| "fabs NInf = PInf"
| "fabs NaN = NaN"

text \<open>Comparisons: every comparison with NaN is false.\<close>

fun fle :: "fval \<Rightarrow> fval \<Rightarrow> bool" where
  "fle NaN _ = False"
| "fle _ NaN = False"
| "fle (Fin a) (Fin b) = (a \<le> b)"
| "fle NInf _ = True"
| "fle _ PInf = True"
| "fle PInf _ = False"
| "fle _ NInf = False"

fun fgt :: "fval \<Rightarrow> fval \<Rightarrow> bool" where
  "fgt NaN _ = False"
| "fgt _ NaN = False"
| "fgt (Fin a) (Fin b) = (b < a)"
| "fgt PInf PInf = False"
| "fgt PInf _ = True"
| "fgt NInf _ = False"
| "fgt (Fin a) NInf = True"
| "fgt (Fin a) PInf = False"

text \<open>
  A column carries its dtype. \<open>NumCol\<close> is an int64 or float64 column, the only kind that
  \<open>select_dtypes(include=[np.number])\<close> selects; \<open>ObjCol\<close> is an object column of strings
  (\<open>None\<close> the null); \<open>BoolCol\<close> a bool column; \<open>TimeCol\<close> a datetime64[ns] column, each
  cell the nanoseconds since 1970-01-01 00:00 (\<open>None\<close> is NaT).
\<close>

datatype column =
    NumCol "fval list"
  | ObjCol "string option list"
  | BoolCol "bool list"
  | TimeCol "int option list"

fun col_len :: "column \<Rightarrow> nat" where
  "col_len (NumCol xs) = length xs"
| "col_len (ObjCol xs) = length xs"
| "col_len (BoolCol xs) = length xs"
| "col_len (TimeCol xs) = length xs"

fun is_numeric :: "column \<Rightarrow> bool" where
  "is_numeric (NumCol xs) = True"
| "is_numeric _ = False"

text \<open>The null mask of a column (\<open>isnull()\<close>).\<close>

fun null_mask :: "column \<Rightarrow> bool list" where
  "null_mask (NumCol xs) = map isnan xs"
| "null_mask (ObjCol xs) = map (\<lambda>x. x = None) xs"
| "null_mask (BoolCol xs) = map (\<lambda>x. False) xs"
| "null_mask (TimeCol xs) = map (\<lambda>x. x = None) xs"

text \<open>
  A DataFrame: the length of its index and its columns in order. \<open>len(df)\<close> is \<open>nrows\<close>.
\<close>

record dataframe =
  nrows :: nat
  cols :: "(string \<times> column) list"

definition column_names :: "dataframe \<Rightarrow> string list" where
  "column_names df = map fst (cols df)"

text \<open>Every column of a DataFrame has one cell per index entry; labels are unique.\<close>

definition wf_df :: "dataframe \<Rightarrow> bool" where
  "wf_df df \<longleftrightarrow>
     distinct (column_names df) \<and> list_all (\<lambda>(n, c). col_len c = nrows df) (cols df)"

text \<open>\<open>df[k] = v\<close>: an existing column is replaced where it stands, a new one is appended.\<close>

fun set_column :: "string \<Rightarrow> column \<Rightarrow> (string \<times> column) list \<Rightarrow> (string \<times> column) list" where
  "set_column k v [] = [(k, v)]"
| "set_column k v ((k', v') # rest) =
     (if k = k' then (k, v) # rest else (k', v') # set_column k v rest)"

text \<open>The numeric columns, in order (\<open>df.select_dtypes(include=[np.number])\<close>).\<close>

fun numeric_cols :: "(string \<times> column) list \<Rightarrow> (string \<times> fval list) list" where
  "numeric_cols [] = []"
| "numeric_cols ((n, NumCol xs) # rest) = (n, xs) # numeric_cols rest"
| "numeric_cols ((n, c) # rest) = numeric_cols rest"

text \<open>
  Assigning to the numeric columns the result of a column-wise operation \<open>f\<close>
  (\<open>df[numeric_cols] = f(df[numeric_cols])\<close>): the other columns stay as they are.
\<close>

fun map_numeric :: "(fval list \<Rightarrow> fval list) \<Rightarrow> (string \<times> column) list \<Rightarrow> (string \<times> column) list" where
  "map_numeric f [] = []"
| "map_numeric f ((n, NumCol xs) # rest) = (n, NumCol (f xs)) # map_numeric f rest"
| "map_numeric f ((n, c) # rest) = (n, c) # map_numeric f rest"

datatype error =
    KeyError string
  | NoNumericColumns
  | UnsupportedMethod
  | ScalerInputError
  | SchemaNotFound
  | MissingColumns "string list"
  | EmptyColumns "string list"
  | TimestampParseError
  | TypeError
  | NotImplementedError
  | AttributeError
  | ValueError

text \<open>The well-formedness of a list of columns against a row count.\<close>

definition wf_cols :: "nat \<Rightarrow> (string \<times> column) list \<Rightarrow> bool" where
  "wf_cols n cs \<longleftrightarrow> distinct (map fst cs) \<and> (\<forall>(k, c) \<in> set cs. col_len c = n)"

section \<open>Column statistics (pandas and numpy reductions that skip NaN)\<close>

definition dropna :: "fval list \<Rightarrow> fval list" where
  "dropna xs = filter (\<lambda>x. \<not> isnan x) xs"

definition fsum :: "fval list \<Rightarrow> fval" where
  "fsum xs = foldr fadd xs (Fin 0)"

text \<open>\<open>mean()\<close>: the sum of the non-null cells over their count; NaN when there is none.\<close>

definition nanmean :: "fval list \<Rightarrow> fval" where
  "nanmean xs =
     (let vs = dropna xs
      in if vs = [] then NaN else fdiv (fsum vs) (Fin (real (length vs))))"

definition sq_dev :: "fval \<Rightarrow> fval \<Rightarrow> fval" where
  "sq_dev m x = fmul (fsub x m) (fsub x m)"

text \<open>
  The variance with \<open>ddof\<close> delta degrees of freedom: pandas' \<open>std()\<close> uses \<open>ddof = 1\<close>
  and answers NaN when the count of non-null cells does not exceed \<open>ddof\<close>; the scaler
  uses \<open>ddof = 0\<close>.
\<close>

definition nanvar :: "nat \<Rightarrow> fval list \<Rightarrow> fval" where
  "nanvar ddof xs =
     (let vs = dropna xs
      in if length vs \<le> ddof then NaN
         else fdiv (fsum (map (sq_dev (nanmean xs)) vs)) (Fin (real (length vs - ddof))))"

definition nanstd :: "fval list \<Rightarrow> fval" where
  "nanstd xs = fsqrt (nanvar 1 xs)"

fun finsert :: "fval \<Rightarrow> fval list \<Rightarrow> fval list" where
  "finsert x [] = [x]"
| "finsert x (y # ys) = (if fle x y then x # y # ys else y # finsert x ys)"

definition fsort :: "fval list \<Rightarrow> fval list" where
  "fsort xs = foldr finsert xs []"

text \<open>\<open>median()\<close>: the middle non-null cell, or the mean of the two middle ones.\<close>

definition nanmedian :: "fval list \<Rightarrow> fval" where
  "nanmedian xs =
     (let s = fsort (dropna xs); n = length s
      in if n = 0 then NaN
         else if odd n then s ! (n div 2)
         else fdiv (fadd (s ! (n div 2 - 1)) (s ! (n div 2))) (Fin 2))"

definition fmin :: "fval \<Rightarrow> fval \<Rightarrow> fval" where
  "fmin a b = (if fle a b then a else b)"

definition fmax :: "fval \<Rightarrow> fval \<Rightarrow> fval" where
  "fmax a b = (if fle a b then b else a)"

text \<open>\<open>np.nanmin\<close> and \<open>np.nanmax\<close>: NaN for a column without a non-null cell.\<close>

definition nanmin :: "fval list \<Rightarrow> fval" where
  "nanmin xs = (case dropna xs of [] \<Rightarrow> NaN | v # vs \<Rightarrow> foldr fmin vs v)"

definition nanmax :: "fval list \<Rightarrow> fval" where
  "nanmax xs = (case dropna xs of [] \<Rightarrow> NaN | v # vs \<Rightarrow> foldr fmax vs v)"

section \<open>Timestamps\<close>

text \<open>
  A datetime64[ns] cell counts nanoseconds since 1970-01-01 00:00. The \<open>.dt\<close> fields are
  those of the proleptic Gregorian calendar.
\<close>

definition days_of :: "int \<Rightarrow> int" where
  "days_of ns = ns div 86400000000000"

definition hour_of :: "int \<Rightarrow> int" where
  "hour_of ns = (ns div 3600000000000) mod 24"

text \<open>Monday is 0; 1970-01-01 was a Thursday.\<close>

definition weekday_of :: "int \<Rightarrow> int" where
  "weekday_of ns = (days_of ns + 3) mod 7"

text \<open>
  Year and day of the year (from 0) of a day number, as pandas' \<open>days_to_yearsdays\<close>
  finds them: relative to 2000-01-01 (day 10957), then by cycles of 400, 100, 4 and 1
  years.
\<close>

definition is_leapyear :: "int \<Rightarrow> bool" where
  "is_leapyear y \<longleftrightarrow> y mod 4 = 0 \<and> (y mod 100 \<noteq> 0 \<or> y mod 400 = 0)"

definition days_to_yearsdays :: "int \<Rightarrow> int \<times> int" where
  "days_to_yearsdays d0 =
     (let days = d0 - 10957;
          year = 400 * (days div 146097);
          days = days mod 146097
      in if days \<ge> 366 then
           (let year = year + 100 * ((days - 1) div 36524);
                days = (days - 1) mod 36524
            in if days \<ge> 365 then
                 (let year = year + 4 * ((days + 1) div 1461);
                      days = (days + 1) mod 1461
                  in if days \<ge> 366 then (year + (days - 1) div 365 + 2000, (days - 1) mod 365)
                     else (year + 2000, days))
               else (year + 2000, days))
         else (year + 2000, days))"

definition days_per_month :: "bool \<Rightarrow> int list" where
  "days_per_month leap =
     (if leap then [31, 29, 31, 30, 31, 30, 31, 31, 30, 31, 30, 31]
      else [31, 28, 31, 30, 31, 30, 31, 31, 30, 31, 30, 31])"

text \<open>
  The walk along the month lengths: \<open>i\<close> months are behind, \<open>days\<close> days remain. It
  answers the month (from 1) and the day of the month (from 1).
\<close>

fun month_day :: "int list \<Rightarrow> int \<Rightarrow> int \<Rightarrow> int \<times> int" where
  "month_day [] i days = (i + 1, days + 1)"
| "month_day (l # ls) i days =
     (if days < l then (i + 1, days + 1) else month_day ls (i + 1) (days - l))"

definition month_and_day :: "int \<Rightarrow> int \<times> int" where
  "month_and_day ns =
     (case days_to_yearsdays (days_of ns) of
        (year, doy) \<Rightarrow> month_day (days_per_month (is_leapyear year)) 0 doy)"

definition month_of :: "int \<Rightarrow> int" where
  "month_of ns = fst (month_and_day ns)"

definition day_of :: "int \<Rightarrow> int" where
  "day_of ns = snd (month_and_day ns)"

text \<open>
  \<open>pd.to_datetime\<close> is library code; what the text of a cell parses to is a parameter:
  \<open>parse c i\<close> is the timestamp read from row \<open>i\<close> of column \<open>c\<close>, or \<open>None\<close> when that cell
  does not parse (the answer may depend on the whole column, as the format is inferred
  from it). A null cell is NaT whatever the parser; a datetime column is kept as it is.
\<close>

type_synonym parser = "column \<Rightarrow> nat \<Rightarrow> int option"

text \<open>\<open>pd.to_datetime(col, errors="coerce")\<close>: a cell that does not parse becomes NaT.\<close>

fun to_datetime_coerce :: "parser \<Rightarrow> column \<Rightarrow> int option list" where
  "to_datetime_coerce parse (TimeCol ts) = ts"
| "to_datetime_coerce parse c =
     map (\<lambda>i. if null_mask c ! i then None else parse c i) [0..<col_len c]"

text \<open>\<open>pd.to_datetime(col)\<close> raises when a cell that is not null does not parse.\<close>

fun to_datetime_raises :: "parser \<Rightarrow> column \<Rightarrow> bool" where
  "to_datetime_raises parse (TimeCol ts) = False"
| "to_datetime_raises parse c =
     list_ex (\<lambda>i. \<not> null_mask c ! i \<and> parse c i = None) [0..<col_len c]"

section \<open>transformers.py: add_time_features\<close>

text \<open>
  \<open>df[k].dt.<field>\<close>: defined on a datetime column only; the field of NaT is NaN, which
  makes the result a float column.
\<close>

definition field_values :: "(int \<Rightarrow> int) \<Rightarrow> int option list \<Rightarrow> fval list" where
  "field_values f ts = map (\<lambda>t. case t of None \<Rightarrow> NaN | Some ns \<Rightarrow> Fin (of_int (f ns))) ts"

definition dt_field :: "(int \<Rightarrow> int) \<Rightarrow> string \<Rightarrow> (string \<times> column) list \<Rightarrow> error + column" where
  "dt_field f k cs =
     (case map_of cs k of
        None \<Rightarrow> Inl (KeyError k)
      | Some (TimeCol ts) \<Rightarrow> Inr (NumCol (field_values f ts))
      | Some _ \<Rightarrow> Inl AttributeError)"

text \<open>
  The four assignments run in the order of the source, each reading the timestamp column
  from the table as the previous assignment left it.
\<close>

definition add_time_features :: "parser \<Rightarrow> string \<Rightarrow> dataframe \<Rightarrow> error + dataframe" where
  "add_time_features parse timestamp_col df =
     (case map_of (cols df) timestamp_col of
        None \<Rightarrow> Inl (KeyError timestamp_col)
      | Some c \<Rightarrow>
          (let cs0 = set_column timestamp_col (TimeCol (to_datetime_coerce parse c)) (cols df)
           in case dt_field hour_of timestamp_col cs0 of
                Inl e \<Rightarrow> Inl e
              | Inr h \<Rightarrow>
                  (let cs1 = set_column ''hour'' h cs0
                   in case dt_field day_of timestamp_col cs1 of
                        Inl e \<Rightarrow> Inl e
                      | Inr d \<Rightarrow>
                          (let cs2 = set_column ''day'' d cs1
                           in case dt_field weekday_of timestamp_col cs2 of
                                Inl e \<Rightarrow> Inl e
                              | Inr w \<Rightarrow>
                                  (let cs3 = set_column ''weekday'' w cs2
                                   in case dt_field month_of timestamp_col cs3 of
                                        Inl e \<Rightarrow> Inl e
                                      | Inr m \<Rightarrow>
                                          Inr (df\<lparr>cols := set_column ''month'' m cs3\<rparr>))))))"

section \<open>transformers.py: normalize_features\<close>

text \<open>
  The scalers are scikit-learn's. Their input check refuses a frame without rows and a
  frame with an infinite cell (NaN is allowed). A fitted scaler keeps two numbers per
  column: \<open>(scale_, min_)\<close> for MinMaxScaler, \<open>(mean_, scale_)\<close> for StandardScaler.
  What those numbers are and what a cell is scaled to is float64 arithmetic inside the
  library (rounding, and a constant-column test against a few machine epsilons); it is a
  parameter here. Fitting looks at one column at a time; transforming is cell by cell:
  \<open>X * scale_ + min_\<close> for MinMaxScaler, \<open>(X - mean_) / scale_\<close> for StandardScaler.
\<close>

datatype scaler =
    MinMaxScaler "(fval \<times> fval) list"
  | StandardScaler "(fval \<times> fval) list"

record scaler_arith =
  fit_minmax :: "fval list \<Rightarrow> fval \<times> fval"
  cell_minmax :: "fval \<times> fval \<Rightarrow> fval \<Rightarrow> fval"
  fit_standard :: "fval list \<Rightarrow> fval \<times> fval"
  cell_standard :: "fval \<times> fval \<Rightarrow> fval \<Rightarrow> fval"

definition is_inf :: "fval \<Rightarrow> bool" where
  "is_inf x = (x = PInf \<or> x = NInf)"

definition check_array :: "nat \<Rightarrow> fval list list \<Rightarrow> bool" where
  "check_array n X = (0 < n \<and> list_all (\<lambda>xs. list_all (\<lambda>x. \<not> is_inf x) xs) X)"

text \<open>\<open>scaler.fit_transform\<close> on one column.\<close>

definition minmax_fit_transform :: "scaler_arith \<Rightarrow> fval list \<Rightarrow> fval list" where
  "minmax_fit_transform ar xs = map (cell_minmax ar (fit_minmax ar xs)) xs"

definition standard_fit_transform :: "scaler_arith \<Rightarrow> fval list \<Rightarrow> fval list" where
  "standard_fit_transform ar xs = map (cell_standard ar (fit_standard ar xs)) xs"

definition normalize_features :: "scaler_arith \<Rightarrow> string \<Rightarrow> dataframe \<Rightarrow> error + dataframe \<times> scaler" where
  "normalize_features ar method df =
     (let ncs = numeric_cols (cols df)
      in if ncs = [] then Inl NoNumericColumns
         else if method = ''minmax'' then
           (if check_array (nrows df) (map snd ncs)
            then Inr (df\<lparr>cols := map_numeric (minmax_fit_transform ar) (cols df)\<rparr>,
                      MinMaxScaler (map (\<lambda>(n, xs). fit_minmax ar xs) ncs))
            else Inl ScalerInputError)
         else if method = ''standard'' then
           (if check_array (nrows df) (map snd ncs)
            then Inr (df\<lparr>cols := map_numeric (standard_fit_transform ar) (cols df)\<rparr>,
                      StandardScaler (map (\<lambda>(n, xs). fit_standard ar xs) ncs))
            else Inl ScalerInputError)
         else Inl UnsupportedMethod)"

section \<open>transformers.py: fill_missing_values\<close>

text \<open>\<open>fillna(v)\<close> on one column: a null cell takes the value \<open>v\<close> (which may itself be NaN).\<close>

definition fillna :: "fval \<Rightarrow> fval list \<Rightarrow> fval list" where
  "fillna v xs = map (\<lambda>x. if isnan x then v else x) xs"

text \<open>
  \<open>fillna(df[numeric_cols].mean())\<close> fills each column with the statistic found under its
  own label. The table without numeric columns is returned before the method is looked at.
\<close>

definition fill_missing_values :: "string \<Rightarrow> dataframe \<Rightarrow> error + dataframe" where
  "fill_missing_values method df =
     (if numeric_cols (cols df) = [] then Inr df
      else if method = ''mean'' then
        Inr (df\<lparr>cols := map_numeric (\<lambda>xs. fillna (nanmean xs) xs) (cols df)\<rparr>)
      else if method = ''median'' then
        Inr (df\<lparr>cols := map_numeric (\<lambda>xs. fillna (nanmedian xs) xs) (cols df)\<rparr>)
      else if method = ''zero'' then
        Inr (df\<lparr>cols := map_numeric (\<lambda>xs. fillna (Fin 0) xs) (cols df)\<rparr>)
      else Inl UnsupportedMethod)"

text \<open>The statistic that a fill method takes from one column.\<close>

definition fill_value :: "string \<Rightarrow> fval list \<Rightarrow> fval" where
  "fill_value method xs =
     (if method = ''mean'' then nanmean xs
      else if method = ''median'' then nanmedian xs
      else Fin 0)"

section \<open>transformers.py: detect_anomalies\<close>

text \<open>
  \<open>np.abs((df[numeric_cols] - df[numeric_cols].mean()) / df[numeric_cols].std())\<close>, one
  column at a time.
\<close>

definition z_score :: "fval list \<Rightarrow> fval \<Rightarrow> fval" where
  "z_score xs x = fabs (fdiv (fsub x (nanmean xs)) (nanstd xs))"

definition z_scores :: "fval list \<Rightarrow> fval list" where
  "z_scores xs = map (z_score xs) xs"

text \<open>\<open>.any(axis=1)\<close> of a boolean frame with \<open>n\<close> rows, given by its columns.\<close>

definition any_axis1 :: "nat \<Rightarrow> bool list list \<Rightarrow> bool list" where
  "any_axis1 n bcols = foldr (\<lambda>bs acc. map2 (\<or>) bs acc) bcols (replicate n False)"

definition detect_anomalies :: "fval \<Rightarrow> dataframe \<Rightarrow> dataframe" where
  "detect_anomalies threshold df =
     (let ncs = numeric_cols (cols df)
      in if ncs = [] then
           df\<lparr>cols := set_column ''is_anomaly'' (BoolCol (replicate (nrows df) False)) (cols df)\<rparr>
         else
           df\<lparr>cols := set_column ''is_anomaly''
                 (BoolCol (any_axis1 (nrows df)
                    (map (\<lambda>(n, xs). map (\<lambda>z. fgt z threshold) (z_scores xs)) ncs)))
                 (cols df)\<rparr>)"

text \<open>The number of flagged rows (\<open>df["is_anomaly"].sum()\<close>).\<close>

definition anomaly_count :: "dataframe \<Rightarrow> nat" where
  "anomaly_count df =
     (case map_of (cols df) ''is_anomaly'' of
        Some (BoolCol bs) \<Rightarrow> length (filter (\<lambda>b. b) bs)
      | _ \<Rightarrow> 0)"

section \<open>transformers.py: clip_outliers\<close>

text \<open>
  \<open>np.percentile\<close> is library code and a parameter here: given the non-null cells of a
  numeric column and a percentage it answers a bound or raises.
\<close>

type_synonym percentile = "fval list \<Rightarrow> real \<Rightarrow> error + fval"

text \<open>
  \<open>np.clip\<close> of a numeric Series is \<open>Series.clip\<close>: a NaN bound is no bound, two bounds
  are put in order, a null cell stays null, the upper bound is applied first.
\<close>

definition clip_upper :: "fval \<Rightarrow> fval \<Rightarrow> fval" where
  "clip_upper u x = (if isnan u \<or> isnan x \<or> fle x u then x else u)"

definition clip_lower :: "fval \<Rightarrow> fval \<Rightarrow> fval" where
  "clip_lower l x = (if isnan l \<or> isnan x \<or> fle l x then x else l)"

definition np_clip :: "fval \<Rightarrow> fval \<Rightarrow> fval list \<Rightarrow> fval list" where
  "np_clip lo hi xs =
     (let l = (if isnan lo \<or> isnan hi then lo else fmin lo hi);
          u = (if isnan lo \<or> isnan hi then hi else fmax lo hi)
      in map (\<lambda>x. clip_lower l (clip_upper u x)) xs)"

text \<open>
  For a column of another dtype the two percentiles and the clip are library behaviour as
  a whole, and a parameter: \<open>other c lower upper\<close> is what
  \<open>np.clip(c, np.percentile(c.dropna(), lower), np.percentile(c.dropna(), upper))\<close>
  answers or raises. \<open>np.clip\<close> of a Series answers a Series over the same index, which
  \<open>keeps_length\<close> states.
\<close>

type_synonym clip_other = "column \<Rightarrow> real \<Rightarrow> real \<Rightarrow> error + column"

definition keeps_length :: "clip_other \<Rightarrow> bool" where
  "keeps_length other \<longleftrightarrow> (\<forall>c lo hi c'. other c lo hi = Inr c' \<longrightarrow> col_len c' = col_len c)"

text \<open>
  The loop over the requested columns: an unknown name is skipped; every other column is
  clipped, whatever its dtype.
\<close>

fun clip_columns :: "percentile \<Rightarrow> clip_other \<Rightarrow> real \<Rightarrow> real \<Rightarrow> string list
    \<Rightarrow> (string \<times> column) list \<Rightarrow> error + (string \<times> column) list" where
  "clip_columns pct other lower upper [] cs = Inr cs"
| "clip_columns pct other lower upper (col # rest) cs =
     (case map_of cs col of
        None \<Rightarrow> clip_columns pct other lower upper rest cs
      | Some (NumCol xs) \<Rightarrow>
          (case pct (dropna xs) lower of
             Inl e \<Rightarrow> Inl e
           | Inr lower_bound \<Rightarrow>
               (case pct (dropna xs) upper of
                  Inl e \<Rightarrow> Inl e
                | Inr upper_bound \<Rightarrow>
                    clip_columns pct other lower upper rest
                      (set_column col (NumCol (np_clip lower_bound upper_bound xs)) cs)))
      | Some c \<Rightarrow>
          (case other c lower upper of
             Inl e \<Rightarrow> Inl e
           | Inr c' \<Rightarrow> clip_columns pct other lower upper rest (set_column col c' cs)))"

definition clip_outliers :: "percentile \<Rightarrow> clip_other \<Rightarrow> string list \<Rightarrow> real \<Rightarrow> real
    \<Rightarrow> dataframe \<Rightarrow> error + dataframe" where
  "clip_outliers pct other columns lower_percentile upper_percentile df =
     (case clip_columns pct other lower_percentile upper_percentile columns (cols df) of
        Inl e \<Rightarrow> Inl e
      | Inr cs \<Rightarrow> Inr (df\<lparr>cols := cs\<rparr>))"

section \<open>transformers.py: create_kpis\<close>

definition bool_to_num :: "bool \<Rightarrow> fval" where
  "bool_to_num b = (if b then Fin 1 else Fin 0)"

text \<open>
  \<open>df[a] / df[b]\<close>. Two numeric columns divide cell by cell; a bool column is promoted when
  the other operand is numeric; pandas refuses bool / bool (NotImplementedError) and the
  division of strings or datetimes (TypeError).
\<close>

fun truediv :: "column \<Rightarrow> column \<Rightarrow> error + column" where
  "truediv (NumCol xs) (NumCol ys) = Inr (NumCol (map2 fdiv xs ys))"
| "truediv (NumCol xs) (BoolCol ys) = Inr (NumCol (map2 fdiv xs (map bool_to_num ys)))"
| "truediv (BoolCol xs) (NumCol ys) = Inr (NumCol (map2 fdiv (map bool_to_num xs) ys))"
| "truediv (BoolCol xs) (BoolCol ys) = Inl NotImplementedError"
| "truediv _ _ = Inl TypeError"

definition create_kpis :: "dataframe \<Rightarrow> error + dataframe" where
  "create_kpis df =
     (case (map_of (cols df) ''mill_power_kwh'', map_of (cols df) ''throughput_tph'') of
        (Some p, Some q) \<Rightarrow>
          (case truediv p q of
             Inl e \<Rightarrow> Inl e
           | Inr c \<Rightarrow> Inr (df\<lparr>cols := set_column ''specific_power_consumption'' c (cols df)\<rparr>))
      | _ \<Rightarrow> Inr df)"

section \<open>Schemas and validation\<close>

text \<open>
  A schema document read from JSON. The loader reads the key \<open>fields\<close> (a list of
  \<open>{name, type}\<close>), the pipeline reads the key \<open>columns\<close> (a list of names); either key may
  be absent from a document.
\<close>

record field =
  name :: string
  ftype :: string

record schema =
  schema_fields :: "field list option"
  schema_columns :: "string list option"

text \<open>The columns without a single non-null cell (\<open>df[col].dropna().empty\<close>).\<close>

definition empty_columns :: "dataframe \<Rightarrow> string list" where
  "empty_columns df = map fst (filter (\<lambda>(n, c). list_all (\<lambda>b. b) (null_mask c)) (cols df))"

subsection \<open>loaders.py: validate\<close>

datatype message =
    OK
  | Missing_columns "string set"
  | Empty_columns "string list"
  | Timestamp_parse_error

text \<open>
  The timestamp check reads \<open>df['timestamp']\<close> inside the \<open>try\<close>: the KeyError of a table
  without that column is caught like a parse error.
\<close>

definition validate :: "parser \<Rightarrow> dataframe \<Rightarrow> schema \<Rightarrow> error + bool \<times> message" where
  "validate parse df sch =
     (case schema_fields sch of
        None \<Rightarrow> Inl (KeyError ''fields'')
      | Some fs \<Rightarrow>
          (let missing = set (map name fs) - set (column_names df)
           in if missing \<noteq> {} then Inr (False, Missing_columns missing)
              else if empty_columns df \<noteq> [] then Inr (False, Empty_columns (empty_columns df))
              else (case map_of (cols df) ''timestamp'' of
                      None \<Rightarrow> Inr (False, Timestamp_parse_error)
                    | Some c \<Rightarrow>
                        if to_datetime_raises parse c then Inr (False, Timestamp_parse_error)
                        else Inr (True, OK))))"

subsection \<open>pipelines.py: validate_schema and preprocess_single\<close>

text \<open>
  \<open>SCHEMAS\<close>, the registry built at import time from the schema directory, is a parameter.
  \<open>validate_schema\<close> answers True or raises ValueError; extra columns are only logged.
  Its loop \<open>df[col] = pd.DataFrame(df[col])\<close> assigns every column to itself and leaves
  the table as it was.
\<close>

definition validate_schema :: "(string \<rightharpoonup> schema) \<Rightarrow> parser \<Rightarrow> dataframe \<Rightarrow> string \<Rightarrow> error + bool" where
  "validate_schema SCHEMAS parse df stage =
     (case SCHEMAS stage of
        None \<Rightarrow> Inl SchemaNotFound
      | Some sch \<Rightarrow>
          (let expected_columns = (case schema_columns sch of None \<Rightarrow> [] | Some cs \<Rightarrow> cs);
               missing_columns = filter (\<lambda>col. col \<notin> set (column_names df)) expected_columns
           in if missing_columns \<noteq> [] then Inl (MissingColumns missing_columns)
              else if empty_columns df \<noteq> [] then Inl (EmptyColumns (empty_columns df))
              else (case map_of (cols df) ''timestamp'' of
                      None \<Rightarrow> Inr True
                    | Some c \<Rightarrow>
                        if to_datetime_raises parse c then Inl TimestampParseError
                        else Inr True)))"

text \<open>
  \<open>preprocess_single\<close> calls \<open>validate_schema\<close> outside any \<open>try\<close>; the two transform steps
  log and re-raise. \<open>add_time_features\<close> is called with its default column, timestamp.
\<close>

definition preprocess_single :: "(string \<rightharpoonup> schema) \<Rightarrow> parser \<Rightarrow> scaler_arith \<Rightarrow> dataframe
    \<Rightarrow> string \<Rightarrow> string \<Rightarrow> error + dataframe" where
  "preprocess_single SCHEMAS parse ar df stage normalize_method =
     (case validate_schema SCHEMAS parse df stage of
        Inl e \<Rightarrow> Inl e
      | Inr ok \<Rightarrow>
          (case add_time_features parse ''timestamp'' df of
             Inl e \<Rightarrow> Inl e
           | Inr df1 \<Rightarrow>
               (case normalize_features ar normalize_method df1 of
                  Inl e \<Rightarrow> Inl e
                | Inr (df2, sc) \<Rightarrow> Inr df2)))"

section \<open>Sample inputs\<close>

text \<open>
  A parser that reads two texts and nothing else, for the concrete tables below:
  2025-09-17 23:10:01 (a Wednesday) and 2024-02-29 00:00:00 (a Thursday).
\<close>

definition sample_text :: "string \<Rightarrow> int option" where
  "sample_text s =
     (if s = ''2025-09-17 23:10:01'' then Some 1758150601000000000
      else if s = ''2024-02-29 00:00:00'' then Some 1709164800000000000
      else None)"

fun sample_parse :: parser where
  "sample_parse (ObjCol xs) i = (case xs ! i of None \<Rightarrow> None | Some s \<Rightarrow> sample_text s)"
| "sample_parse c i = None"

definition no_ts_df :: dataframe where
  "no_ts_df =
     \<lparr>nrows = 2,
      cols = [(''a'', NumCol [Fin 1, Fin 2]), (''b'', ObjCol [Some ''x'', None])]\<rparr>"

definition ab_schema :: schema where
  "ab_schema =
     \<lparr>schema_fields = Some [\<lparr>name = ''a'', ftype = ''float''\<rparr>, \<lparr>name = ''b'', ftype = ''string''\<rparr>],
      schema_columns = Some [''a'', ''b'']\<rparr>"

text \<open>
  A percentile function for the concrete tables: numpy's default linear interpolation
  between the two nearest ranks of the sorted sample, which must not be empty and whose
  percentage must lie in 0..100.
\<close>

definition sample_percentile :: percentile where
  "sample_percentile vs q =
     (if vs = [] \<or> q < 0 \<or> 100 < q then Inl ValueError
      else (let s = fsort vs;
                h = real (length s - 1) * q / 100;
                lo = nat \<lfloor>h\<rfloor>;
                hi = nat \<lceil>h\<rceil>
            in Inr (fadd (s ! lo) (fmul (fsub (s ! hi) (s ! lo)) (Fin (h - real lo))))))"

text \<open>
  A scaler arithmetic for the concrete tables: the scalers' formulas in exact arithmetic,
  a zero range or deviation replaced by 1.
\<close>

definition sample_scalers :: scaler_arith where
  "sample_scalers =
     \<lparr>fit_minmax = (\<lambda>xs.
          let data_min = nanmin xs;
              data_range = fsub (nanmax xs) data_min;
              scale = fdiv (Fin 1) (if data_range = Fin 0 then Fin 1 else data_range)
          in (scale, fsub (Fin 0) (fmul data_min scale))),
      cell_minmax = (\<lambda>p x. fadd (fmul x (fst p)) (snd p)),
      fit_standard = (\<lambda>xs.
          let s = fsqrt (nanvar 0 xs) in (nanmean xs, if s = Fin 0 then Fin 1 else s)),
      cell_standard = (\<lambda>p x. fdiv (fsub x (fst p)) (snd p))\<rparr>"

text \<open>
  A clip of datetime columns for the concrete tables: the bounds are interpolated between
  the two nearest ranks of the sorted non-null cells and rounded down to the nanosecond;
  a null cell stays null. Columns of other dtypes are refused.
\<close>

definition time_percentile :: "int list \<Rightarrow> real \<Rightarrow> int" where
  "time_percentile s q =
     (let h = real (length s - 1) * q / 100;
          lo = nat \<lfloor>h\<rfloor>;
          hi = nat \<lceil>h\<rceil>
      in s ! lo + \<lfloor>real_of_int (s ! hi - s ! lo) * (h - real lo)\<rfloor>)"

fun sample_clip_other :: clip_other where
  "sample_clip_other (TimeCol ts) lower upper =
     (let s = sort (List.map_filter (\<lambda>t. t) ts)
      in if s = [] \<or> lower < 0 \<or> 100 < upper then Inl ValueError
         else Inr (TimeCol (map (map_option (\<lambda>v. max (time_percentile s lower)
                                                 (min (time_percentile s upper) v))) ts)))"
| "sample_clip_other c lower upper = Inl TypeError"

text \<open>A registry with two schemas for the concrete table.\<close>

definition stage_schemas :: "string \<rightharpoonup> schema" where
  "stage_schemas =
     [''stage4_cement_grinding'' \<mapsto>
        \<lparr>schema_fields = None,
         schema_columns = Some [''timestamp'', ''mill_power_kwh'', ''throughput_tph'', ''blaine'']\<rparr>,
      ''stage4_mill'' \<mapsto>
        \<lparr>schema_fields = None,
         schema_columns = Some [''timestamp'', ''mill_power_kwh'', ''throughput_tph'']\<rparr>]"

text \<open>The tables. First the scenario of the specification for the KPI.\<close>

definition kpi_scenario :: dataframe where
  "kpi_scenario =
     \<lparr>nrows = 2,
      cols = [(''mill_power_kwh'', NumCol [Fin 100, Fin 200]),
              (''throughput_tph'', NumCol [Fin 50, Fin 50])]\<rparr>"

definition ts_df :: dataframe where
  "ts_df =
     \<lparr>nrows = 3,
      cols = [(''timestamp'', ObjCol [Some ''2025-09-17 23:10:01'', Some ''not a date'', None]),
              (''a'', NumCol [Fin 1, Fin 3, NaN])]\<rparr>"

definition anomaly_df :: dataframe where
  "anomaly_df =
     \<lparr>nrows = 3,
      cols = [(''sensor'', ObjCol [Some ''a'', Some ''b'', None]),
              (''x'', NumCol [Fin 0, Fin 4, Fin 8])]\<rparr>"

definition fill_df :: dataframe where
  "fill_df =
     \<lparr>nrows = 3,
      cols = [(''sensor'', ObjCol [Some ''a'', None, Some ''c'']),
              (''x'', NumCol [Fin 1, NaN, Fin 3])]\<rparr>"

definition all_null_df :: dataframe where
  "all_null_df =
     \<lparr>nrows = 2,
      cols = [(''sensor'', ObjCol [Some ''a'', None]), (''x'', NumCol [NaN, NaN])]\<rparr>"

definition empty_num_df :: dataframe where
  "empty_num_df = \<lparr>nrows = 0, cols = [(''x'', NumCol [])]\<rparr>"

definition inf_df :: dataframe where
  "inf_df = \<lparr>nrows = 2, cols = [(''x'', NumCol [Fin 1, PInf])]\<rparr>"

definition scale_df :: dataframe where
  "scale_df =
     \<lparr>nrows = 3,
      cols = [(''sensor'', ObjCol [Some ''a'', None, Some ''c'']),
              (''x'', NumCol [Fin 2, NaN, Fin 6])]\<rparr>"

definition junk_df :: dataframe where
  "junk_df =
     \<lparr>nrows = 2,
      cols = [(''a'', NumCol [Fin 1, Fin 2]), (''b'', ObjCol [Some ''x'', None]),
              (''junk'', NumCol [NaN, NaN])]\<rparr>"

definition clock_df :: dataframe where
  "clock_df =
     \<lparr>nrows = 3,
      cols = [(''logged_at'', TimeCol [Some 0, Some 100, None]),
              (''x'', NumCol [Fin 1, Fin 2, Fin 3])]\<rparr>"

definition plant_df :: dataframe where
  "plant_df =
     \<lparr>nrows = 3,
      cols = [(''timestamp'', ObjCol [Some ''2025-09-17 23:10:01'', Some ''2024-02-29 00:00:00'', None]),
              (''mill_power_kwh'', NumCol [Fin 100, Fin 200, NaN]),
              (''throughput_tph'', NumCol [Fin 50, Fin 50, Fin 0])]\<rparr>"

section \<open>Properties\<close>

lemma map_of_set_column_same: "map_of (set_column k v al) k = Some v"
  by (induction al) auto

lemma map_of_set_column_other: "k' \<noteq> k \<Longrightarrow> map_of (set_column k v al) k' = map_of al k'"
  by (induction al) auto

subsection \<open>create_kpis\<close>

lemma create_kpis_numeric:
  fixes df :: dataframe
  assumes "map_of (cols df) ''mill_power_kwh'' = Some (NumCol ps)"
    and "map_of (cols df) ''throughput_tph'' = Some (NumCol qs)"
  shows "create_kpis df =
      Inr (df\<lparr>cols := set_column ''specific_power_consumption'' (NumCol (map2 fdiv ps qs)) (cols df)\<rparr>)"
  using assms by (simp add: create_kpis_def)

text \<open>
  Claim C8. On the scenario table (mill power 100, 200; throughput 50, 50) \<open>create_kpis\<close>
  returns the table extended with \<open>specific_power_consumption = [2, 4]\<close>. In general, when
  both columns are present and numeric, the new column is the row-wise quotient of power by
  throughput, every other column and the row count are kept, and the divisor is not
  guarded: a finite power over a zero throughput is NaN, plus or minus infinity.
\<close>

theorem create_kpis_quotient:
  "create_kpis kpi_scenario =
     Inr \<lparr>nrows = 2,
          cols = [(''mill_power_kwh'', NumCol [Fin 100, Fin 200]),
                  (''throughput_tph'', NumCol [Fin 50, Fin 50]),
                  (''specific_power_consumption'', NumCol [Fin 2, Fin 4])]\<rparr>
   \<and> (\<forall>(df::dataframe) ps qs.
        map_of (cols df) ''mill_power_kwh'' = Some (NumCol ps) \<and>
        map_of (cols df) ''throughput_tph'' = Some (NumCol qs) \<longrightarrow>
        (\<exists>df'. create_kpis df = Inr df' \<and> nrows df' = nrows df
           \<and> map_of (cols df') ''specific_power_consumption'' = Some (NumCol (map2 fdiv ps qs))
           \<and> (\<forall>k. k \<noteq> ''specific_power_consumption'' \<longrightarrow>
                  map_of (cols df') k = map_of (cols df) k)))
   \<and> (\<forall>a. fdiv (Fin a) (Fin 0) = (if a = 0 then NaN else if 0 < a then PInf else NInf))"
proof (intro conjI allI impI)
  show "create_kpis kpi_scenario =
     Inr \<lparr>nrows = 2,
          cols = [(''mill_power_kwh'', NumCol [Fin 100, Fin 200]),
                  (''throughput_tph'', NumCol [Fin 50, Fin 50]),
                  (''specific_power_consumption'', NumCol [Fin 2, Fin 4])]\<rparr>"
    by (simp add: create_kpis_def kpi_scenario_def)
next
  fix df :: dataframe and ps qs
  assume h: "map_of (cols df) ''mill_power_kwh'' = Some (NumCol ps) \<and>
        map_of (cols df) ''throughput_tph'' = Some (NumCol qs)"
  show "\<exists>df'. create_kpis df = Inr df' \<and> nrows df' = nrows df
           \<and> map_of (cols df') ''specific_power_consumption'' = Some (NumCol (map2 fdiv ps qs))
           \<and> (\<forall>k. k \<noteq> ''specific_power_consumption'' \<longrightarrow>
                  map_of (cols df') k = map_of (cols df) k)"
    using h by (simp add: create_kpis_numeric map_of_set_column_same map_of_set_column_other)
next
  fix a :: real
  show "fdiv (Fin a) (Fin 0) = (if a = 0 then NaN else if 0 < a then PInf else NInf)"
    by simp
qed

text \<open>The theorem at a table whose throughput is zero in both rows.\<close>

theorem create_kpis_quotient_witness:
  "\<exists>df'. create_kpis
       \<lparr>nrows = 2,
        cols = [(''mill_power_kwh'', NumCol [Fin 100, Fin 0]),
                (''throughput_tph'', NumCol [Fin 0, Fin 0])]\<rparr> = Inr df'
     \<and> nrows df' = 2
     \<and> map_of (cols df') ''specific_power_consumption'' = Some (NumCol [PInf, NaN])"
proof -
  let ?df = "\<lparr>nrows = 2,
        cols = [(''mill_power_kwh'', NumCol [Fin 100, Fin 0]),
                (''throughput_tph'', NumCol [Fin 0, Fin 0])]\<rparr>"
  have h: "map_of (cols ?df) ''mill_power_kwh'' = Some (NumCol [Fin 100, Fin 0]) \<and>
        map_of (cols ?df) ''throughput_tph'' = Some (NumCol [Fin 0, Fin 0])"
    by simp
  from create_kpis_quotient
  have "\<exists>df'. create_kpis ?df = Inr df' \<and> nrows df' = nrows ?df
           \<and> map_of (cols df') ''specific_power_consumption''
               = Some (NumCol (map2 fdiv [Fin 100, Fin 0] [Fin 0, Fin 0]))
           \<and> (\<forall>k. k \<noteq> ''specific_power_consumption'' \<longrightarrow>
                  map_of (cols df') k = map_of (cols ?df) k)"
    using h by blast
  then show ?thesis by auto
qed

subsection \<open>loaders.py: validate\<close>

lemma map_of_timestamp_absent:
  fixes df :: dataframe
  shows "''timestamp'' \<notin> set (column_names df) \<Longrightarrow> map_of (cols df) ''timestamp'' = None"
  by (simp add: column_names_def map_of_eq_None_iff)

text \<open>
  Claim C9, amended. The timestamp check of \<open>validate\<close> is not conditional on the column being
  there: a table without a column named timestamp never validates as true, and when every
  declared field is present and no column of the table, declared or not, is empty the
  answer is (False, "Timestamp parse error"), whether or not the schema declares a
  timestamp.
\<close>

theorem validate_without_timestamp:
  fixes df :: dataframe
  assumes "''timestamp'' \<notin> set (column_names df)"
  shows "(\<forall>m. validate parse df sch \<noteq> Inr (True, m))
       \<and> (\<forall>fs. schema_fields sch = Some fs \<and> set (map name fs) \<subseteq> set (column_names df)
                \<and> empty_columns df = []
              \<longrightarrow> validate parse df sch = Inr (False, Timestamp_parse_error))"
  using map_of_timestamp_absent[OF assms]
  by (auto simp: validate_def Let_def split: option.splits)

theorem validate_without_timestamp_witness:
  "''timestamp'' \<notin> set (column_names no_ts_df)
   \<and> ''timestamp'' \<notin> set (map name (the (schema_fields ab_schema)))
   \<and> validate sample_parse no_ts_df ab_schema = Inr (False, Timestamp_parse_error)"
proof -
  have a: "''timestamp'' \<notin> set (column_names no_ts_df)"
    by (simp add: column_names_def no_ts_df_def)
  have b: "schema_fields ab_schema
        = Some [\<lparr>name = ''a'', ftype = ''float''\<rparr>, \<lparr>name = ''b'', ftype = ''string''\<rparr>]
      \<and> set (map name [\<lparr>name = ''a'', ftype = ''float''\<rparr>, \<lparr>name = ''b'', ftype = ''string''\<rparr>])
           \<subseteq> set (column_names no_ts_df)
      \<and> empty_columns no_ts_df = []"
    by (simp add: ab_schema_def column_names_def no_ts_df_def empty_columns_def)
  have c: "''timestamp'' \<notin> set (map name (the (schema_fields ab_schema)))"
    by (simp add: ab_schema_def)
  from validate_without_timestamp[OF a, of sample_parse ab_schema] b
  show ?thesis using a c by blast
qed

text \<open>
  Claim C9 as stated fails: the declared fields being present and non-empty does not
  suffice for the answer "Timestamp parse error". The empty-column check runs over every
  column of the table and comes first, so a table with an undeclared column that has no
  value is answered (False, "Empty columns").
\<close>

theorem validate_without_timestamp_counterexample:
  "''timestamp'' \<notin> set (column_names junk_df)
   \<and> map name (the (schema_fields ab_schema)) = [''a'', ''b'']
   \<and> column_names junk_df = [''a'', ''b'', ''junk'']
   \<and> empty_columns junk_df = [''junk'']
   \<and> validate sample_parse junk_df ab_schema = Inr (False, Empty_columns [''junk''])
   \<and> validate sample_parse junk_df ab_schema \<noteq> Inr (False, Timestamp_parse_error)"
  by (simp add: validate_def ab_schema_def junk_df_def column_names_def empty_columns_def)

subsection \<open>Calendar fields\<close>

lemma hour_of_range: "0 \<le> hour_of ns \<and> hour_of ns \<le> 23"
  by (simp add: hour_of_def)

lemma weekday_of_range: "0 \<le> weekday_of ns \<and> weekday_of ns \<le> 6"
  by (simp add: weekday_of_def)

lemma leapyear_400: "is_leapyear (400 * k + 2000)"
proof -
  have "400 * k + 2000 = 400 * (k + 5)" by simp
  then have "400 dvd 400 * k + 2000" by (simp only: dvd_triv_left)
  moreover have "(4::int) dvd 400" by simp
  ultimately have "4 dvd 400 * k + 2000" by (rule dvd_trans[rotated])
  with \<open>400 dvd 400 * k + 2000\<close> show ?thesis
    by (simp only: is_leapyear_def mod_eq_0_iff_dvd simp_thms)
qed

lemma leapyear_4:
  assumes "1 \<le> j" "j \<le> 24"
  shows "is_leapyear (400 * k + 100 * c + 4 * j + 2000)"
proof -
  have "400 * k + 100 * c + 4 * j + 2000 = 4 * (100 * k + 25 * c + j + 500)" by simp
  then have a: "(400 * k + 100 * c + 4 * j + 2000) mod 4 = 0"
    by (simp only: mod_mult_self1_is_0)
  have "400 * k + 100 * c + 4 * j + 2000 = 4 * j + 100 * (4 * k + c + 20)" by simp
  then have "(400 * k + 100 * c + 4 * j + 2000) mod 100 = (4 * j) mod 100"
    by (simp only: mod_mult_self2)
  also have "\<dots> = 4 * j" using assms by simp
  finally have b: "(400 * k + 100 * c + 4 * j + 2000) mod 100 \<noteq> 0" using assms by simp
  from a b show ?thesis by (simp only: is_leapyear_def simp_thms)
qed

text \<open>The day of the year stays within the year, the leap day within a leap year.\<close>

lemma yearsdays_bounds:
  assumes "days_to_yearsdays d0 = (y, doy)"
  shows "0 \<le> doy \<and> (doy < 365 \<or> doy = 365 \<and> is_leapyear y)"
proof -
  define days where "days = (d0 - 10957) mod 146097"
  define k where "k = (d0 - 10957) div 146097"
  have d: "0 \<le> days" "days < 146097" by (simp_all add: days_def)
  show ?thesis
  proof (cases "days \<ge> 366")
    case False
    with assms have "y = 400 * k + 2000" "doy = days"
      by (simp_all add: days_to_yearsdays_def Let_def days_def k_def)
    with False d leapyear_400 show ?thesis by auto
  next
    case A: True
    define d1 where "d1 = (days - 1) mod 36524"
    define c where "c = (days - 1) div 36524"
    have d1: "0 \<le> d1" "d1 < 36524" by (simp_all add: d1_def)
    show ?thesis
    proof (cases "d1 \<ge> 365")
      case False
      with A assms have "doy = d1"
        by (simp add: days_to_yearsdays_def Let_def days_def[symmetric] d1_def[symmetric])
      with False d1 show ?thesis by auto
    next
      case B: True
      define d2 where "d2 = (d1 + 1) mod 1461"
      define j where "j = (d1 + 1) div 1461"
      have d2: "0 \<le> d2" "d2 < 1461" by (simp_all add: d2_def)
      show ?thesis
      proof (cases "d2 \<ge> 366")
        case True
        with A B assms have "doy = (d2 - 1) mod 365"
          by (simp add: days_to_yearsdays_def Let_def days_def[symmetric] d1_def[symmetric]
              d2_def[symmetric])
        then show ?thesis by simp
      next
        case False
        with A B assms have e: "doy = d2" "y = 400 * k + 100 * c + 4 * j + 2000"
          by (simp_all add: days_to_yearsdays_def Let_def days_def[symmetric] d1_def[symmetric]
              d2_def[symmetric] k_def c_def j_def)
        have dm: "d1 + 1 = 1461 * j + d2" by (simp add: j_def d2_def)
        have j24: "j \<le> 24" using d1 d2 dm by arith
        have j1: "d2 = 365 \<Longrightarrow> 1 \<le> j" using B dm by arith
        from False d2 e leapyear_4[OF j1 j24] show ?thesis by auto
      qed
    qed
  qed
qed

lemma month_day_bounds:
  assumes "0 \<le> doy" "doy < (if leap then 366 else 365)"
  shows "1 \<le> fst (month_day (days_per_month leap) 0 doy)
       \<and> fst (month_day (days_per_month leap) 0 doy) \<le> 12
       \<and> 1 \<le> snd (month_day (days_per_month leap) 0 doy)
       \<and> snd (month_day (days_per_month leap) 0 doy) \<le> 31"
  using assms by (auto simp: days_per_month_def split: if_splits)

lemma month_and_day_range:
  "1 \<le> fst (month_and_day ns) \<and> fst (month_and_day ns) \<le> 12
   \<and> 1 \<le> snd (month_and_day ns) \<and> snd (month_and_day ns) \<le> 31"
proof -
  obtain y doy where yd: "days_to_yearsdays (days_of ns) = (y, doy)"
    by (cases "days_to_yearsdays (days_of ns)") auto
  from yearsdays_bounds[OF yd]
  have "0 \<le> doy" "doy < (if is_leapyear y then 366 else 365)" by auto
  from month_day_bounds[OF this] yd show ?thesis
    by (simp add: month_and_day_def)
qed

lemma month_of_range: "1 \<le> month_of ns \<and> month_of ns \<le> 12"
  using month_and_day_range[of ns] by (simp add: month_of_def)

lemma day_of_range: "1 \<le> day_of ns \<and> day_of ns \<le> 31"
  using month_and_day_range[of ns] by (simp add: day_of_def)

subsection \<open>add_time_features\<close>

lemma length_to_datetime_coerce: "length (to_datetime_coerce parse c) = col_len c"
  by (cases c) simp_all

lemma length_field_values: "length (field_values f ts) = length ts"
  by (simp add: field_values_def)

lemma field_values_nth:
  "i < length ts \<Longrightarrow>
   field_values f ts ! i = (case ts ! i of None \<Rightarrow> NaN | Some ns \<Rightarrow> Fin (of_int (f ns)))"
  by (simp add: field_values_def)

lemma dt_field_TimeCol:
  "map_of cs k = Some (TimeCol ts) \<Longrightarrow> dt_field f k cs = Inr (NumCol (field_values f ts))"
  by (simp add: dt_field_def)

text \<open>The table that \<open>add_time_features\<close> builds when the four reads succeed.\<close>

lemma add_time_features_success:
  fixes df :: dataframe and parse :: parser
  assumes c: "map_of (cols df) tc = Some c"
    and tc: "tc \<noteq> ''hour''" "tc \<noteq> ''day''" "tc \<noteq> ''weekday''"
  defines "ts \<equiv> to_datetime_coerce parse c"
  shows "add_time_features parse tc df =
     Inr (df\<lparr>cols :=
        set_column ''month'' (NumCol (field_values month_of ts))
          (set_column ''weekday'' (NumCol (field_values weekday_of ts))
            (set_column ''day'' (NumCol (field_values day_of ts))
              (set_column ''hour'' (NumCol (field_values hour_of ts))
                (set_column tc (TimeCol ts) (cols df)))))\<rparr>)"
proof -
  let ?cs0 = "set_column tc (TimeCol ts) (cols df)"
  let ?cs1 = "set_column ''hour'' (NumCol (field_values hour_of ts)) ?cs0"
  let ?cs2 = "set_column ''day'' (NumCol (field_values day_of ts)) ?cs1"
  let ?cs3 = "set_column ''weekday'' (NumCol (field_values weekday_of ts)) ?cs2"
  have 0: "map_of ?cs0 tc = Some (TimeCol ts)" by (rule map_of_set_column_same)
  have 1: "map_of ?cs1 tc = Some (TimeCol ts)"
    using tc 0 by (simp add: map_of_set_column_other)
  have 2: "map_of ?cs2 tc = Some (TimeCol ts)"
    using tc 1 by (simp add: map_of_set_column_other)
  have 3: "map_of ?cs3 tc = Some (TimeCol ts)"
    using tc 2 by (simp add: map_of_set_column_other)
  show ?thesis
    unfolding add_time_features_def
    by (simp add: c Let_def ts_def[symmetric] dt_field_TimeCol[OF 0] dt_field_TimeCol[OF 1]
        dt_field_TimeCol[OF 2] dt_field_TimeCol[OF 3])
qed

text \<open>
  Claim C5. Let the timestamp column be named anything but hour, day or weekday (three
  names the function itself assigns before it reads the timestamp column again). If the
  table lacks the column the call fails with KeyError (MissingColumn). Otherwise the call
  succeeds, keeps the row count and every other column, and adds four numeric columns of
  the same length: in a row whose timestamp parses, hour is an integer in 0..23, day in
  1..31, weekday in 0..6 and month in 1..12; in a row whose timestamp does not parse, all
  four are null.
\<close>

theorem add_time_features_ranges:
  fixes df :: dataframe
  assumes tc: "tc \<noteq> ''hour''" "tc \<noteq> ''day''" "tc \<noteq> ''weekday''"
  shows "(map_of (cols df) tc = None \<longrightarrow> add_time_features parse tc df = Inl (KeyError tc))
    \<and> (\<forall>c. map_of (cols df) tc = Some c \<longrightarrow>
         (\<exists>df' hs ds ws ms.
            add_time_features parse tc df = Inr df' \<and> nrows df' = nrows df
          \<and> map_of (cols df') ''hour'' = Some (NumCol hs) \<and> length hs = col_len c
          \<and> map_of (cols df') ''day'' = Some (NumCol ds) \<and> length ds = col_len c
          \<and> map_of (cols df') ''weekday'' = Some (NumCol ws) \<and> length ws = col_len c
          \<and> map_of (cols df') ''month'' = Some (NumCol ms) \<and> length ms = col_len c
          \<and> (\<forall>k. k \<notin> {tc, ''hour'', ''day'', ''weekday'', ''month''} \<longrightarrow>
                 map_of (cols df') k = map_of (cols df) k)
          \<and> (\<forall>i < col_len c.
                (case to_datetime_coerce parse c ! i of
                   None \<Rightarrow> hs ! i = NaN \<and> ds ! i = NaN \<and> ws ! i = NaN \<and> ms ! i = NaN
                 | Some ns \<Rightarrow>
                     (\<exists>h d w m. hs ! i = Fin (of_int h) \<and> 0 \<le> h \<and> h \<le> 23
                        \<and> ds ! i = Fin (of_int d) \<and> 1 \<le> d \<and> d \<le> 31
                        \<and> ws ! i = Fin (of_int w) \<and> 0 \<le> w \<and> w \<le> 6
                        \<and> ms ! i = Fin (of_int m) \<and> 1 \<le> m \<and> m \<le> 12)))))"
proof (intro conjI allI impI)
  assume "map_of (cols df) tc = None"
  then show "add_time_features parse tc df = Inl (KeyError tc)"
    by (simp add: add_time_features_def)
next
  fix c
  assume c: "map_of (cols df) tc = Some c"
  define ts where "ts = to_datetime_coerce parse c"
  define hs where "hs = field_values hour_of ts"
  define ds where "ds = field_values day_of ts"
  define ws where "ws = field_values weekday_of ts"
  define ms where "ms = field_values month_of ts"
  define df' where "df' = df\<lparr>cols :=
        set_column ''month'' (NumCol ms)
          (set_column ''weekday'' (NumCol ws)
            (set_column ''day'' (NumCol ds)
              (set_column ''hour'' (NumCol hs)
                (set_column tc (TimeCol ts) (cols df)))))\<rparr>"
  have len: "length ts = col_len c" by (simp add: ts_def length_to_datetime_coerce)
  have lens: "length hs = col_len c" "length ds = col_len c" "length ws = col_len c"
      "length ms = col_len c"
    by (simp_all add: hs_def ds_def ws_def ms_def length_field_values len)
  have run: "add_time_features parse tc df = Inr df'"
    using add_time_features_success[OF c tc, of parse]
    by (simp add: ts_def hs_def ds_def ws_def ms_def df'_def)
  have nr: "nrows df' = nrows df" by (simp add: df'_def)
  have rows: "\<forall>i < col_len c.
        (case ts ! i of
           None \<Rightarrow> hs ! i = NaN \<and> ds ! i = NaN \<and> ws ! i = NaN \<and> ms ! i = NaN
         | Some ns \<Rightarrow>
             (\<exists>h d w m. hs ! i = Fin (of_int h) \<and> 0 \<le> h \<and> h \<le> 23
                \<and> ds ! i = Fin (of_int d) \<and> 1 \<le> d \<and> d \<le> 31
                \<and> ws ! i = Fin (of_int w) \<and> 0 \<le> w \<and> w \<le> 6
                \<and> ms ! i = Fin (of_int m) \<and> 1 \<le> m \<and> m \<le> 12))"
  proof (intro allI impI)
    fix i assume "i < col_len c"
    then have i: "i < length ts" by (simp add: len)
    show "case ts ! i of
           None \<Rightarrow> hs ! i = NaN \<and> ds ! i = NaN \<and> ws ! i = NaN \<and> ms ! i = NaN
         | Some ns \<Rightarrow>
             (\<exists>h d w m. hs ! i = Fin (of_int h) \<and> 0 \<le> h \<and> h \<le> 23
                \<and> ds ! i = Fin (of_int d) \<and> 1 \<le> d \<and> d \<le> 31
                \<and> ws ! i = Fin (of_int w) \<and> 0 \<le> w \<and> w \<le> 6
                \<and> ms ! i = Fin (of_int m) \<and> 1 \<le> m \<and> m \<le> 12)"
    proof (cases "ts ! i")
      case None
      then show ?thesis
        by (simp add: hs_def ds_def ws_def ms_def field_values_nth[OF i])
    next
      case (Some ns)
      show ?thesis
        using hour_of_range[of ns] day_of_range[of ns] weekday_of_range[of ns]
          month_of_range[of ns]
        by (simp add: Some hs_def ds_def ws_def ms_def field_values_nth[OF i])
    qed
  qed
  have others: "\<forall>k. k \<notin> {tc, ''hour'', ''day'', ''weekday'', ''month''} \<longrightarrow>
                 map_of (cols df') k = map_of (cols df) k"
    by (simp add: df'_def map_of_set_column_other)
  have look: "map_of (cols df') ''hour'' = Some (NumCol hs)"
      "map_of (cols df') ''day'' = Some (NumCol ds)"
      "map_of (cols df') ''weekday'' = Some (NumCol ws)"
      "map_of (cols df') ''month'' = Some (NumCol ms)"
    by (simp_all add: df'_def map_of_set_column_other map_of_set_column_same)
  from run nr look lens others rows
  show "\<exists>df' hs ds ws ms.
            add_time_features parse tc df = Inr df' \<and> nrows df' = nrows df
          \<and> map_of (cols df') ''hour'' = Some (NumCol hs) \<and> length hs = col_len c
          \<and> map_of (cols df') ''day'' = Some (NumCol ds) \<and> length ds = col_len c
          \<and> map_of (cols df') ''weekday'' = Some (NumCol ws) \<and> length ws = col_len c
          \<and> map_of (cols df') ''month'' = Some (NumCol ms) \<and> length ms = col_len c
          \<and> (\<forall>k. k \<notin> {tc, ''hour'', ''day'', ''weekday'', ''month''} \<longrightarrow>
                 map_of (cols df') k = map_of (cols df) k)
          \<and> (\<forall>i < col_len c.
                (case to_datetime_coerce parse c ! i of
                   None \<Rightarrow> hs ! i = NaN \<and> ds ! i = NaN \<and> ws ! i = NaN \<and> ms ! i = NaN
                 | Some ns \<Rightarrow>
                     (\<exists>h d w m. hs ! i = Fin (of_int h) \<and> 0 \<le> h \<and> h \<le> 23
                        \<and> ds ! i = Fin (of_int d) \<and> 1 \<le> d \<and> d \<le> 31
                        \<and> ws ! i = Fin (of_int w) \<and> 0 \<le> w \<and> w \<le> 6
                        \<and> ms ! i = Fin (of_int m) \<and> 1 \<le> m \<and> m \<le> 12)))"
    unfolding ts_def[symmetric] by blast
qed


text \<open>The theorem at a table of three rows: one that parses, one that does not, one null.\<close>

theorem add_time_features_ranges_witness:
  "''timestamp'' \<noteq> ''hour'' \<and> ''timestamp'' \<noteq> ''day'' \<and> ''timestamp'' \<noteq> ''weekday''
   \<and> (\<exists>df' hs ds ws ms.
        add_time_features sample_parse ''timestamp'' ts_df = Inr df' \<and> nrows df' = 3
      \<and> map_of (cols df') ''hour'' = Some (NumCol hs) \<and> length hs = 3
      \<and> map_of (cols df') ''day'' = Some (NumCol ds) \<and> length ds = 3
      \<and> map_of (cols df') ''weekday'' = Some (NumCol ws) \<and> length ws = 3
      \<and> map_of (cols df') ''month'' = Some (NumCol ms) \<and> length ms = 3
      \<and> (\<exists>h d w m. hs ! 0 = Fin (of_int h) \<and> 0 \<le> h \<and> h \<le> 23
            \<and> ds ! 0 = Fin (of_int d) \<and> 1 \<le> d \<and> d \<le> 31
            \<and> ws ! 0 = Fin (of_int w) \<and> 0 \<le> w \<and> w \<le> 6
            \<and> ms ! 0 = Fin (of_int m) \<and> 1 \<le> m \<and> m \<le> 12)
      \<and> hs ! 1 = NaN \<and> ds ! 1 = NaN \<and> ws ! 1 = NaN \<and> ms ! 1 = NaN)"
proof -
  let ?c = "ObjCol [Some ''2025-09-17 23:10:01'', Some ''not a date'', None]"
  have n: "''timestamp'' \<noteq> ''hour''" "''timestamp'' \<noteq> ''day''" "''timestamp'' \<noteq> ''weekday''"
    by simp_all
  have c: "map_of (cols ts_df) ''timestamp'' = Some ?c" by (simp add: ts_df_def)
  have t: "to_datetime_coerce sample_parse ?c = [Some 1758150601000000000, None, None]"
    by (simp add: sample_text_def upt_rec)
  from add_time_features_ranges[OF n, of ts_df sample_parse, THEN conjunct2, rule_format, OF c]
  obtain df' hs ds ws ms where
    r: "add_time_features sample_parse ''timestamp'' ts_df = Inr df'" "nrows df' = nrows ts_df"
      "map_of (cols df') ''hour'' = Some (NumCol hs)" "length hs = col_len ?c"
      "map_of (cols df') ''day'' = Some (NumCol ds)" "length ds = col_len ?c"
      "map_of (cols df') ''weekday'' = Some (NumCol ws)" "length ws = col_len ?c"
      "map_of (cols df') ''month'' = Some (NumCol ms)" "length ms = col_len ?c"
    and rows: "\<forall>i < col_len ?c.
                (case to_datetime_coerce sample_parse ?c ! i of
                   None \<Rightarrow> hs ! i = NaN \<and> ds ! i = NaN \<and> ws ! i = NaN \<and> ms ! i = NaN
                 | Some ns \<Rightarrow>
                     (\<exists>h d w m. hs ! i = Fin (of_int h) \<and> 0 \<le> h \<and> h \<le> 23
                        \<and> ds ! i = Fin (of_int d) \<and> 1 \<le> d \<and> d \<le> 31
                        \<and> ws ! i = Fin (of_int w) \<and> 0 \<le> w \<and> w \<le> 6
                        \<and> ms ! i = Fin (of_int m) \<and> 1 \<le> m \<and> m \<le> 12))"
    by (elim exE conjE) (rule that)
  have r0: "\<exists>h d w m. hs ! 0 = Fin (of_int h) \<and> 0 \<le> h \<and> h \<le> 23
            \<and> ds ! 0 = Fin (of_int d) \<and> 1 \<le> d \<and> d \<le> 31
            \<and> ws ! 0 = Fin (of_int w) \<and> 0 \<le> w \<and> w \<le> 6
            \<and> ms ! 0 = Fin (of_int m) \<and> 1 \<le> m \<and> m \<le> 12"
    using rows[rule_format, of 0] unfolding t by simp
  have r1: "hs ! 1 = NaN \<and> ds ! 1 = NaN \<and> ws ! 1 = NaN \<and> ms ! 1 = NaN"
    using rows[rule_format, of 1] unfolding t by simp
  have nr: "nrows df' = 3" using r(2) by (simp add: ts_df_def)
  have l: "length hs = 3" "length ds = 3" "length ws = 3" "length ms = 3"
    using r by simp_all
  show ?thesis
    apply (intro conjI n)
    apply (rule exI[of _ df'], rule exI[of _ hs], rule exI[of _ ds], rule exI[of _ ws],
        rule exI[of _ ms])
    apply (intro conjI r(1) nr r(3) r(5) r(7) r(9) l r0)
    using r1 apply simp_all
    done
qed

subsection \<open>detect_anomalies\<close>

lemma numeric_cols_iff: "(n, xs) \<in> set (numeric_cols cs) \<longleftrightarrow> (n, NumCol xs) \<in> set cs"
  by (induction cs rule: numeric_cols.induct) auto

lemma length_any_axis1:
  "\<forall>bs \<in> set bcols. length bs = n \<Longrightarrow> length (any_axis1 n bcols) = n"
  by (induction bcols) (simp_all add: any_axis1_def)

lemma any_axis1_nth:
  "\<forall>bs \<in> set bcols. length bs = n \<Longrightarrow> i < n \<Longrightarrow>
   any_axis1 n bcols ! i \<longleftrightarrow> (\<exists>bs \<in> set bcols. bs ! i)"
proof (induction bcols)
  case Nil
  then show ?case by (simp add: any_axis1_def)
next
  case (Cons a bcols)
  then have l: "length (any_axis1 n bcols) = n" "length a = n"
    by (simp_all add: length_any_axis1)
  have "any_axis1 n (a # bcols) = map2 (\<or>) a (any_axis1 n bcols)"
    by (simp add: any_axis1_def)
  with Cons l show ?case by simp
qed

lemma wf_numeric_length:
  fixes df :: dataframe
  shows "wf_df df \<Longrightarrow> (n, NumCol xs) \<in> set (cols df) \<Longrightarrow> length xs = nrows df"
  by (auto simp: wf_df_def list_all_iff)

text \<open>
  Claim C3. \<open>detect_anomalies\<close> returns the input table with the column \<open>is_anomaly\<close>
  assigned (every other column and the row count kept), one boolean per row. Row \<open>i\<close> is
  flagged exactly when some numeric column \<open>xs\<close> of the input has
  \<open>|(xs[i] - mean xs) / std xs| > t\<close>, mean and std taken over that column. A table
  without numeric columns has no flagged row.
\<close>

theorem detect_anomalies_flags:
  fixes df :: dataframe
  assumes wf: "wf_df df"
  shows "\<exists>flags.
      cols (detect_anomalies t df) = set_column ''is_anomaly'' (BoolCol flags) (cols df)
    \<and> nrows (detect_anomalies t df) = nrows df
    \<and> length flags = nrows df
    \<and> (\<forall>i < nrows df. flags ! i \<longleftrightarrow>
          (\<exists>n xs. (n, NumCol xs) \<in> set (cols df)
             \<and> fgt (fabs (fdiv (fsub (xs ! i) (nanmean xs)) (nanstd xs))) t))
    \<and> ((\<forall>n c. (n, c) \<in> set (cols df) \<longrightarrow> \<not> is_numeric c) \<longrightarrow> (\<forall>i < nrows df. \<not> flags ! i))"
proof -
  define ncs where "ncs = numeric_cols (cols df)"
  define bcols where "bcols = map (\<lambda>(n, xs). map (\<lambda>z. fgt z t) (z_scores xs)) ncs"
  define flags where "flags = any_axis1 (nrows df) bcols"
  have len_n: "\<And>n xs. (n, xs) \<in> set ncs \<Longrightarrow> length xs = nrows df"
    using wf by (simp add: ncs_def numeric_cols_iff wf_numeric_length)
  have lens: "\<forall>bs \<in> set bcols. length bs = nrows df"
    using len_n by (auto simp: bcols_def z_scores_def)
  have c: "cols (detect_anomalies t df) = set_column ''is_anomaly'' (BoolCol flags) (cols df)"
    by (simp add: detect_anomalies_def Let_def flags_def bcols_def ncs_def any_axis1_def)
  have r: "nrows (detect_anomalies t df) = nrows df"
    by (simp add: detect_anomalies_def Let_def)
  have l: "length flags = nrows df"
    using lens by (simp add: flags_def length_any_axis1)
  have f: "flags ! i \<longleftrightarrow>
          (\<exists>n xs. (n, NumCol xs) \<in> set (cols df)
             \<and> fgt (fabs (fdiv (fsub (xs ! i) (nanmean xs)) (nanstd xs))) t)"
    if i: "i < nrows df" for i
  proof -
    have "flags ! i \<longleftrightarrow> (\<exists>bs \<in> set bcols. bs ! i)"
      using lens i by (simp add: flags_def any_axis1_nth)
    also have "\<dots> \<longleftrightarrow> (\<exists>p \<in> set ncs. map (\<lambda>z. fgt z t) (z_scores (snd p)) ! i)"
      by (simp add: bcols_def split_beta)
    also have "\<dots> \<longleftrightarrow> (\<exists>p \<in> set ncs. fgt (z_score (snd p) (snd p ! i)) t)"
    proof (rule bex_cong[OF refl])
      fix p assume "p \<in> set ncs"
      then have "length (snd p) = nrows df" using len_n[of "fst p" "snd p"] by simp
      with i show "map (\<lambda>z. fgt z t) (z_scores (snd p)) ! i \<longleftrightarrow> fgt (z_score (snd p) (snd p ! i)) t"
        by (simp add: z_scores_def)
    qed
    also have "\<dots> \<longleftrightarrow> (\<exists>n xs. (n, NumCol xs) \<in> set (cols df) \<and> fgt (z_score xs (xs ! i)) t)"
      by (force simp: ncs_def numeric_cols_iff[symmetric])
    finally show ?thesis by (simp add: z_score_def)
  qed
  have e: "\<forall>i < nrows df. \<not> flags ! i" if "\<forall>n c. (n, c) \<in> set (cols df) \<longrightarrow> \<not> is_numeric c"
  proof (intro allI impI)
    fix i assume "i < nrows df"
    from f[OF this] that show "\<not> flags ! i" by fastforce
  qed
  from c r l f e show ?thesis by blast
qed


lemma anomaly_df_stats:
  "nanmean [Fin 0, Fin 4, Fin 8] = Fin 4" "nanstd [Fin 0, Fin 4, Fin 8] = Fin 4"
proof -
  show m: "nanmean [Fin 0, Fin 4, Fin 8] = Fin 4"
    by (simp add: nanmean_def dropna_def fsum_def)
  have "sqrt 16 = 4" by (rule real_sqrt_unique) simp_all
  then show "nanstd [Fin 0, Fin 4, Fin 8] = Fin 4"
    by (simp add: nanstd_def nanvar_def m dropna_def fsum_def sq_dev_def fsub_def)
qed

text \<open>The theorem at a table whose numeric column 0, 4, 8 has mean 4 and deviation 4.\<close>

theorem detect_anomalies_flags_witness:
  "wf_df anomaly_df
   \<and> (\<exists>flags. cols (detect_anomalies (Fin (1/2)) anomaly_df)
                 = set_column ''is_anomaly'' (BoolCol flags) (cols anomaly_df)
          \<and> nrows (detect_anomalies (Fin (1/2)) anomaly_df) = 3
          \<and> length flags = 3 \<and> flags ! 0 \<and> \<not> flags ! 1 \<and> flags ! 2)"
proof -
  have wf: "wf_df anomaly_df"
    by (simp add: wf_df_def anomaly_df_def column_names_def)
  from detect_anomalies_flags[OF wf, of "Fin (1/2)"]
  obtain flags where
    c: "cols (detect_anomalies (Fin (1/2)) anomaly_df)
          = set_column ''is_anomaly'' (BoolCol flags) (cols anomaly_df)"
    and r: "nrows (detect_anomalies (Fin (1/2)) anomaly_df) = nrows anomaly_df"
    and l: "length flags = nrows anomaly_df"
    and f: "\<forall>i < nrows anomaly_df. flags ! i \<longleftrightarrow>
          (\<exists>n xs. (n, NumCol xs) \<in> set (cols anomaly_df)
             \<and> fgt (fabs (fdiv (fsub (xs ! i) (nanmean xs)) (nanstd xs))) (Fin (1/2)))"
    by (elim exE conjE) (rule that)
  have n: "nrows anomaly_df = 3" by (simp add: anomaly_df_def)
  have f0: "flags ! 0" using f[rule_format, of 0]
    by (simp add: anomaly_df_def anomaly_df_stats fsub_def)
  have f1: "\<not> flags ! 1" using f[rule_format, of 1]
    by (simp add: anomaly_df_def anomaly_df_stats fsub_def)
  have f2: "flags ! 2" using f[rule_format, of 2]
    by (simp add: anomaly_df_def anomaly_df_stats fsub_def)
  from wf c r l f0 f1 f2 n show ?thesis by auto
qed

lemma fgt_antitone: "fle t1 t2 \<Longrightarrow> fgt z t2 \<Longrightarrow> fgt z t1"
  by (cases z; cases t1; cases t2) auto

lemma any_axis1_mono:
  assumes "list_all2 (\<lambda>bs2 bs1. list_all2 (\<lambda>b2 b1. b2 \<longrightarrow> b1) bs2 bs1) bcols2 bcols1"
  shows "list_all2 (\<lambda>b2 b1. b2 \<longrightarrow> b1) (any_axis1 n bcols2) (any_axis1 n bcols1)"
  using assms
proof (induction rule: list_all2_induct)
  case Nil
  show ?case by (simp add: any_axis1_def list_all2_conv_all_nth)
next
  case (Cons bs2 bcols2 bs1 bcols1)
  have *: "any_axis1 n (bs # bcols) = map2 (\<or>) bs (any_axis1 n bcols)" for bs bcols
    by (simp add: any_axis1_def)
  from Cons show ?case
    unfolding * by (auto simp: list_all2_conv_all_nth)
qed

lemma count_true_mono:
  "list_all2 (\<lambda>b2 b1. b2 \<longrightarrow> b1) bs2 bs1 \<Longrightarrow>
   length (filter (\<lambda>b. b) bs2) \<le> length (filter (\<lambda>b. b) bs1)"
  by (induction rule: list_all2_induct) auto

lemma flag_columns_mono:
  assumes "fle t1 t2"
  shows "list_all2 (\<lambda>bs2 bs1. list_all2 (\<lambda>b2 b1. b2 \<longrightarrow> b1) bs2 bs1)
     (map (\<lambda>(n, xs). map (\<lambda>z. fgt z t2) (z_scores xs)) ncs)
     (map (\<lambda>(n, xs). map (\<lambda>z. fgt z t1) (z_scores xs)) ncs)"
  using fgt_antitone[OF assms]
  by (auto simp: list_all2_conv_all_nth split_beta)

text \<open>
  Claim C7. For thresholds \<open>t1 \<le> t2\<close> and every table, the number of rows flagged under
  \<open>t2\<close> is at most the number flagged under \<open>t1\<close>.
\<close>

theorem detect_anomalies_antitone:
  fixes df :: dataframe
  assumes "fle t1 t2"
  shows "anomaly_count (detect_anomalies t2 df) \<le> anomaly_count (detect_anomalies t1 df)"
proof (cases "numeric_cols (cols df) = []")
  case True
  then show ?thesis
    by (simp add: detect_anomalies_def anomaly_count_def map_of_set_column_same)
next
  case False
  from count_true_mono[OF any_axis1_mono[OF flag_columns_mono[OF assms]]] False
  show ?thesis
    by (simp add: detect_anomalies_def anomaly_count_def map_of_set_column_same Let_def)
qed

theorem detect_anomalies_antitone_witness:
  "fle (Fin (1/2)) (Fin 2)
   \<and> anomaly_count (detect_anomalies (Fin 2) anomaly_df)
       \<le> anomaly_count (detect_anomalies (Fin (1/2)) anomaly_df)
   \<and> anomaly_count (detect_anomalies (Fin 2) anomaly_df) = 0
   \<and> anomaly_count (detect_anomalies (Fin (1/2)) anomaly_df) = 2"
proof -
  have h: "fle (Fin (1/2)) (Fin 2)" by simp
  have c: "anomaly_count (detect_anomalies (Fin 2) anomaly_df) = 0
      \<and> anomaly_count (detect_anomalies (Fin (1/2)) anomaly_df) = 2"
    by (simp add: detect_anomalies_def anomaly_count_def anomaly_df_def any_axis1_def
        z_scores_def z_score_def anomaly_df_stats fsub_def numeral_3_eq_3)
  from detect_anomalies_antitone[OF h, of anomaly_df] h c show ?thesis by simp
qed

subsection \<open>fill_missing_values\<close>

lemma map_numeric_map:
  "map_numeric f cs = map (\<lambda>(n, c). (n, case c of NumCol xs \<Rightarrow> NumCol (f xs) | _ \<Rightarrow> c)) cs"
  by (induction f cs rule: map_numeric.induct) simp_all

lemma map_numeric_names: "map fst (map_numeric f cs) = map fst cs"
  by (simp add: map_numeric_map split_beta)

lemma map_numeric_nth_numeric:
  "k < length cs \<Longrightarrow> snd (cs ! k) = NumCol xs \<Longrightarrow> snd (map_numeric f cs ! k) = NumCol (f xs)"
  by (simp add: map_numeric_map split_beta)

lemma map_numeric_nth_other:
  "k < length cs \<Longrightarrow> \<not> is_numeric (snd (cs ! k)) \<Longrightarrow> map_numeric f cs ! k = cs ! k"
  by (cases "snd (cs ! k)") (simp_all add: map_numeric_map split_beta prod_eq_iff)

lemma fill_missing_values_run:
  fixes df :: dataframe
  assumes "method \<in> {''mean'', ''median'', ''zero''}"
  shows "fill_missing_values method df =
     Inr (df\<lparr>cols := map_numeric (\<lambda>xs. fillna (fill_value method xs) xs) (cols df)\<rparr>)"
proof (cases "numeric_cols (cols df) = []")
  case True
  have "map_numeric f cs = cs" if "numeric_cols cs = []" for f cs
    using that by (induction f cs rule: map_numeric.induct) simp_all
  with True show ?thesis by (simp add: fill_missing_values_def)
next
  case False
  with assms show ?thesis
    by (auto simp: fill_missing_values_def fill_value_def)
qed

lemma fillna_no_null: "\<not> isnan v \<Longrightarrow> y \<in> set (fillna v xs) \<Longrightarrow> \<not> isnan y"
  by (auto simp: fillna_def)

lemma dropna_Fin:
  "\<forall>x \<in> set xs. \<not> is_inf x \<Longrightarrow> v \<in> set (dropna xs) \<Longrightarrow> \<exists>a. v = Fin a"
  by (cases v) (auto simp: dropna_def is_inf_def)

lemma fsum_Fin: "\<forall>v \<in> set vs. \<exists>a. v = Fin a \<Longrightarrow> \<exists>s. fsum vs = Fin s"
  by (induction vs) (auto simp: fsum_def)

lemma nanmean_not_null:
  assumes "dropna xs \<noteq> []" "\<forall>x \<in> set xs. \<not> is_inf x"
  shows "\<not> isnan (nanmean xs)"
proof -
  from assms(2) have "\<forall>v \<in> set (dropna xs). \<exists>a. v = Fin a" by (blast dest: dropna_Fin)
  then obtain s where "fsum (dropna xs) = Fin s" using fsum_Fin by blast
  with assms(1) show ?thesis by (simp add: nanmean_def Let_def)
qed

lemma set_finsert: "set (finsert x ys) = insert x (set ys)"
  by (induction ys) auto

lemma set_fsort: "set (fsort xs) = set xs"
  by (induction xs) (simp_all add: fsort_def set_finsert)

lemma length_finsert: "length (finsert x ys) = Suc (length ys)"
  by (induction ys) auto

lemma length_fsort: "length (fsort xs) = length xs"
  by (induction xs) (simp_all add: fsort_def length_finsert)

lemma nanmedian_not_null:
  assumes "dropna xs \<noteq> []" "\<forall>x \<in> set xs. \<not> is_inf x"
  shows "\<not> isnan (nanmedian xs)"
proof -
  define s where "s = fsort (dropna xs)"
  have n: "0 < length s" using assms(1) by (simp add: s_def length_fsort)
  have fin: "\<exists>a. s ! k = Fin a" if "k < length s" for k
  proof -
    from that have "s ! k \<in> set (dropna xs)" unfolding s_def
      using set_fsort[of "dropna xs"] nth_mem by blast
    with assms(2) show ?thesis by (blast dest: dropna_Fin)
  qed
  have a: "length s div 2 < length s" using n by simp
  have b: "length s div 2 - 1 < length s" using n a by arith
  from fin[OF a] fin[OF b] n show ?thesis
    by (auto simp: nanmedian_def s_def[symmetric] Let_def)
qed

lemma fill_value_not_null:
  assumes "method = ''zero'' \<or> dropna xs \<noteq> [] \<and> (\<forall>x \<in> set xs. \<not> is_inf x)"
  shows "\<not> isnan (fill_value method xs)"
  using assms nanmean_not_null[of xs] nanmedian_not_null[of xs]
  by (auto simp: fill_value_def)

text \<open>
  Claim C2, amended. For every table and every method among mean, median and zero,
  \<open>fill_missing_values\<close> succeeds and keeps the row count and the column labels; every
  column that is not numeric is returned as it was; in every numeric column each null cell
  takes that column's own statistic (its mean, its median, or 0) and each other cell is
  kept. Hence no null is left in a numeric column whose statistic is not null: always
  under zero, and under mean and median when the column has a non-null cell and no
  infinite one. A column whose statistic is null is returned as it was.
\<close>

theorem fill_missing_values_fills:
  fixes df :: dataframe
  assumes m: "method \<in> {''mean'', ''median'', ''zero''}"
  shows "\<exists>df'. fill_missing_values method df = Inr df' \<and> nrows df' = nrows df
     \<and> map fst (cols df') = map fst (cols df)
     \<and> (\<forall>k < length (cols df).
          (\<not> is_numeric (snd (cols df ! k)) \<longrightarrow> cols df' ! k = cols df ! k)
        \<and> (\<forall>xs. snd (cols df ! k) = NumCol xs \<longrightarrow>
               (\<exists>ys. snd (cols df' ! k) = NumCol ys \<and> length ys = length xs
                  \<and> (\<forall>i < length xs.
                        ys ! i = (if isnan (xs ! i) then fill_value method xs else xs ! i))
                  \<and> (\<not> isnan (fill_value method xs) \<longrightarrow> (\<forall>y \<in> set ys. \<not> isnan y))
                  \<and> (isnan (fill_value method xs) \<longrightarrow> ys = xs)
                  \<and> (method = ''zero'' \<or> dropna xs \<noteq> [] \<and> (\<forall>x \<in> set xs. \<not> is_inf x)
                       \<longrightarrow> (\<forall>y \<in> set ys. \<not> isnan y)))))"
proof -
  let ?f = "\<lambda>xs. fillna (fill_value method xs) xs"
  let ?df' = "df\<lparr>cols := map_numeric ?f (cols df)\<rparr>"
  have same: "isnan v \<Longrightarrow> fillna v xs = xs" for v xs
    by (cases v) (auto simp: fillna_def intro!: map_idI elim: isnan.elims)
  have num: "\<exists>ys. snd (cols ?df' ! k) = NumCol ys \<and> length ys = length xs
                  \<and> (\<forall>i < length xs.
                        ys ! i = (if isnan (xs ! i) then fill_value method xs else xs ! i))
                  \<and> (\<not> isnan (fill_value method xs) \<longrightarrow> (\<forall>y \<in> set ys. \<not> isnan y))
                  \<and> (isnan (fill_value method xs) \<longrightarrow> ys = xs)
                  \<and> (method = ''zero'' \<or> dropna xs \<noteq> [] \<and> (\<forall>x \<in> set xs. \<not> is_inf x)
                       \<longrightarrow> (\<forall>y \<in> set ys. \<not> isnan y))"
    if k: "k < length (cols df)" and x: "snd (cols df ! k) = NumCol xs" for k xs
    using fillna_no_null[of "fill_value method xs" _ xs] same[of "fill_value method xs" xs]
      fill_value_not_null[of _ xs]
    by (auto simp: map_numeric_nth_numeric[OF k x] fillna_def)
  have oth: "cols ?df' ! k = cols df ! k"
    if "k < length (cols df)" "\<not> is_numeric (snd (cols df ! k))" for k
    using that by (simp add: map_numeric_nth_other)
  have run: "fill_missing_values method df = Inr ?df'" by (rule fill_missing_values_run[OF m])
  have nm: "map fst (cols ?df') = map fst (cols df)" by (simp add: map_numeric_names)
  have nr: "nrows ?df' = nrows df" by simp
  from run nr nm num oth show ?thesis by blast
qed

text \<open>The theorem at a table whose numeric column 1, null, 3 is filled with its mean 2.\<close>

theorem fill_missing_values_fills_witness:
  "''mean'' \<in> {''mean'', ''median'', ''zero''}
   \<and> (\<exists>df' ys. fill_missing_values ''mean'' fill_df = Inr df' \<and> nrows df' = 3
          \<and> cols df' ! 0 = (''sensor'', ObjCol [Some ''a'', None, Some ''c''])
          \<and> snd (cols df' ! 1) = NumCol ys \<and> length ys = 3
          \<and> ys ! 0 = Fin 1 \<and> ys ! 1 = Fin 2 \<and> ys ! 2 = Fin 3
          \<and> (\<forall>y \<in> set ys. \<not> isnan y))"
proof -
  let ?xs = "[Fin 1, NaN, Fin 3]"
  have m: "''mean'' \<in> {''mean'', ''median'', ''zero''}" by simp
  have v: "fill_value ''mean'' ?xs = Fin 2"
    by (simp add: fill_value_def nanmean_def dropna_def fsum_def)
  from fill_missing_values_fills[OF m, of fill_df]
  obtain df' where r: "fill_missing_values ''mean'' fill_df = Inr df'" "nrows df' = nrows fill_df"
    and c: "\<forall>k < length (cols fill_df).
          (\<not> is_numeric (snd (cols fill_df ! k)) \<longrightarrow> cols df' ! k = cols fill_df ! k)
        \<and> (\<forall>xs. snd (cols fill_df ! k) = NumCol xs \<longrightarrow>
               (\<exists>ys. snd (cols df' ! k) = NumCol ys \<and> length ys = length xs
                  \<and> (\<forall>i < length xs.
                        ys ! i = (if isnan (xs ! i) then fill_value ''mean'' xs else xs ! i))
                  \<and> (\<not> isnan (fill_value ''mean'' xs) \<longrightarrow> (\<forall>y \<in> set ys. \<not> isnan y))
                  \<and> (isnan (fill_value ''mean'' xs) \<longrightarrow> ys = xs)
                  \<and> (''mean'' = ''zero'' \<or> dropna xs \<noteq> [] \<and> (\<forall>x \<in> set xs. \<not> is_inf x)
                       \<longrightarrow> (\<forall>y \<in> set ys. \<not> isnan y))))"
    by (elim exE conjE) (rule that)
  have c0: "cols df' ! 0 = (''sensor'', ObjCol [Some ''a'', None, Some ''c''])"
    using c[rule_format, of 0] by (simp add: fill_df_def)
  have "snd (cols fill_df ! 1) = NumCol ?xs" "1 < length (cols fill_df)"
    by (simp_all add: fill_df_def)
  with c obtain ys where y: "snd (cols df' ! 1) = NumCol ys" "length ys = length ?xs"
    and f: "\<forall>i < length ?xs.
              ys ! i = (if isnan (?xs ! i) then fill_value ''mean'' ?xs else ?xs ! i)"
    and nn: "\<not> isnan (fill_value ''mean'' ?xs) \<longrightarrow> (\<forall>y \<in> set ys. \<not> isnan y)"
    by blast
  have y0: "ys ! 0 = Fin 1" using f[rule_format, of 0] by simp
  have y1: "ys ! 1 = Fin 2" using f[rule_format, of 1] by (simp add: v)
  have y2: "ys ! 2 = Fin 3" using f[rule_format, of 2] by simp
  have nn': "\<forall>y \<in> set ys. \<not> isnan y" using nn by (simp add: v)
  have nr: "nrows df' = 3" using r(2) by (simp add: fill_df_def)
  have l: "length ys = 3" using y(2) by simp
  show ?thesis
    apply (intro conjI m)
    apply (rule exI[of _ df'], rule exI[of _ ys])
    apply (intro conjI r(1) nr c0 y(1) l y0 y1 y2 nn')
    done
qed

text \<open>
  Claim C2 as stated fails: an entirely null numeric column has a null mean and a null
  median, and its nulls stay.
\<close>

theorem fill_missing_values_counterexample:
  "fill_missing_values ''mean'' all_null_df =
     Inr \<lparr>nrows = 2,
          cols = [(''sensor'', ObjCol [Some ''a'', None]), (''x'', NumCol [NaN, NaN])]\<rparr>
   \<and> fill_missing_values ''median'' all_null_df =
     Inr \<lparr>nrows = 2,
          cols = [(''sensor'', ObjCol [Some ''a'', None]), (''x'', NumCol [NaN, NaN])]\<rparr>"
  by (simp add: fill_missing_values_def all_null_df_def nanmean_def nanmedian_def dropna_def
      fillna_def fsort_def)

subsection \<open>normalize_features\<close>

lemma numeric_cols_empty_iff:
  "numeric_cols cs = [] \<longleftrightarrow> (\<forall>n c. (n, c) \<in> set cs \<longrightarrow> \<not> is_numeric c)"
  by (induction cs rule: numeric_cols.induct) auto

lemma check_array_iff:
  "check_array n (map snd (numeric_cols cs)) \<longleftrightarrow>
     0 < n \<and> (\<forall>k xs. (k, NumCol xs) \<in> set cs \<longrightarrow> (\<forall>x \<in> set xs. \<not> is_inf x))"
proof -
  have "(\<forall>p \<in> set (numeric_cols cs). \<forall>x \<in> set (snd p). \<not> is_inf x)
      \<longleftrightarrow> (\<forall>k xs. (k, NumCol xs) \<in> set cs \<longrightarrow> (\<forall>x \<in> set xs. \<not> is_inf x))"
    by (force simp: numeric_cols_iff[symmetric])
  then show ?thesis by (simp add: check_array_def list_all_iff)
qed

text \<open>
  Claim C6, amended. \<open>normalize_features\<close> fails with NoNumericColumns exactly when the
  table has no numeric column, and with UnsupportedMethod exactly when it has one and the
  method is neither minmax nor standard. In the remaining cases it returns the scaled
  table (same rows, same labels) together with the fitted scaler of the requested kind,
  one entry per numeric column, provided the table has at least one row and no numeric
  cell is infinite; otherwise the scaler's input check fails.
\<close>

theorem normalize_features_outcomes:
  fixes df :: dataframe
  shows "(normalize_features ar method df = Inl NoNumericColumns
            \<longleftrightarrow> (\<forall>n c. (n, c) \<in> set (cols df) \<longrightarrow> \<not> is_numeric c))
     \<and> (normalize_features ar method df = Inl UnsupportedMethod
            \<longleftrightarrow> (\<exists>n c. (n, c) \<in> set (cols df) \<and> is_numeric c)
                \<and> method \<noteq> ''minmax'' \<and> method \<noteq> ''standard'')
     \<and> ((\<exists>n c. (n, c) \<in> set (cols df) \<and> is_numeric c)
           \<and> (method = ''minmax'' \<or> method = ''standard'') \<longrightarrow>
          (if 0 < nrows df
              \<and> (\<forall>k xs. (k, NumCol xs) \<in> set (cols df) \<longrightarrow> (\<forall>x \<in> set xs. \<not> is_inf x))
           then \<exists>df' ps. nrows df' = nrows df \<and> map fst (cols df') = map fst (cols df)
                  \<and> length ps = length (numeric_cols (cols df))
                  \<and> normalize_features ar method df
                      = Inr (df', if method = ''minmax'' then MinMaxScaler ps else StandardScaler ps)
           else normalize_features ar method df = Inl ScalerInputError))"
proof -
  have e: "numeric_cols (cols df) = [] \<longleftrightarrow> (\<forall>n c. (n, c) \<in> set (cols df) \<longrightarrow> \<not> is_numeric c)"
    by (rule numeric_cols_empty_iff)
  have ne: "numeric_cols (cols df) \<noteq> [] \<longleftrightarrow> (\<exists>n c. (n, c) \<in> set (cols df) \<and> is_numeric c)"
    using e by blast
  have c: "check_array (nrows df) (map snd (numeric_cols (cols df))) \<longleftrightarrow>
     0 < nrows df \<and> (\<forall>k xs. (k, NumCol xs) \<in> set (cols df) \<longrightarrow> (\<forall>x \<in> set xs. \<not> is_inf x))"
    by (rule check_array_iff)
  have 1: "normalize_features ar method df = Inl NoNumericColumns
            \<longleftrightarrow> numeric_cols (cols df) = []"
    by (simp add: normalize_features_def Let_def)
  have 2: "normalize_features ar method df = Inl UnsupportedMethod
            \<longleftrightarrow> numeric_cols (cols df) \<noteq> [] \<and> method \<noteq> ''minmax'' \<and> method \<noteq> ''standard''"
    by (simp add: normalize_features_def Let_def)
  have 3: "if check_array (nrows df) (map snd (numeric_cols (cols df)))
           then \<exists>df' ps. nrows df' = nrows df \<and> map fst (cols df') = map fst (cols df)
                  \<and> length ps = length (numeric_cols (cols df))
                  \<and> normalize_features ar method df
                      = Inr (df', if method = ''minmax'' then MinMaxScaler ps else StandardScaler ps)
           else normalize_features ar method df = Inl ScalerInputError"
    if "numeric_cols (cols df) \<noteq> []" "method = ''minmax'' \<or> method = ''standard''"
    using that by (auto simp: normalize_features_def Let_def map_numeric_names)
  from 1 2 3 show ?thesis unfolding e ne c by blast
qed

text \<open>
  Claim C6 as stated fails: a numeric column and a supported method do not suffice. A
  table without rows and a table with an infinite cell are refused by the scaler.
\<close>

theorem normalize_features_counterexample:
  "normalize_features sample_scalers ''minmax'' empty_num_df = Inl ScalerInputError
   \<and> normalize_features sample_scalers ''standard'' inf_df = Inl ScalerInputError"
  by (simp add: normalize_features_def empty_num_df_def inf_df_def check_array_def is_inf_def)


lemma normalize_features_Inr:
  fixes df :: dataframe
  assumes "normalize_features ar method df = Inr (df', sc)"
  shows "check_array (nrows df) (map snd (numeric_cols (cols df)))"
    and "method = ''minmax'' \<or> method = ''standard''"
    and "method = ''minmax'' \<Longrightarrow>
          df' = df\<lparr>cols := map_numeric (minmax_fit_transform ar) (cols df)\<rparr>"
    and "method = ''standard'' \<Longrightarrow>
          df' = df\<lparr>cols := map_numeric (standard_fit_transform ar) (cols df)\<rparr>"
  using assms by (auto simp: normalize_features_def Let_def split: if_splits)

text \<open>The outcomes at a table of three rows with one numeric column.\<close>

theorem normalize_features_outcomes_witness:
  "(\<exists>n c. (n, c) \<in> set (cols scale_df) \<and> is_numeric c)
   \<and> (\<exists>df' ps. nrows df' = 3 \<and> map fst (cols df') = [''sensor'', ''x''] \<and> length ps = 1
          \<and> normalize_features sample_scalers ''minmax'' scale_df = Inr (df', MinMaxScaler ps))
   \<and> normalize_features sample_scalers ''robust'' scale_df = Inl UnsupportedMethod"
proof -
  have a: "\<exists>n c. (n, c) \<in> set (cols scale_df) \<and> is_numeric c"
    by (rule exI[of _ "''x''"], rule exI[of _ "NumCol [Fin 2, NaN, Fin 6]"])
      (simp add: scale_df_def)
  have b: "0 < nrows scale_df
      \<and> (\<forall>k xs. (k, NumCol xs) \<in> set (cols scale_df) \<longrightarrow> (\<forall>x \<in> set xs. \<not> is_inf x))"
    by (auto simp: scale_df_def is_inf_def)
  have c: "length (numeric_cols (cols scale_df)) = 1" "nrows scale_df = 3"
    "map fst (cols scale_df) = [''sensor'', ''x'']"
    by (simp_all add: scale_df_def)
  from normalize_features_outcomes[of sample_scalers "''minmax''" scale_df] a b
  have "\<exists>df' ps. nrows df' = nrows scale_df \<and> map fst (cols df') = map fst (cols scale_df)
                  \<and> length ps = length (numeric_cols (cols scale_df))
                  \<and> normalize_features sample_scalers ''minmax'' scale_df = Inr (df', MinMaxScaler ps)"
    by simp
  then have d: "\<exists>df' ps. nrows df' = 3 \<and> map fst (cols df') = [''sensor'', ''x''] \<and> length ps = 1
          \<and> normalize_features sample_scalers ''minmax'' scale_df = Inr (df', MinMaxScaler ps)"
    by (simp only: c)
  from normalize_features_outcomes[of sample_scalers "''robust''" scale_df] a
  have e: "normalize_features sample_scalers ''robust'' scale_df = Inl UnsupportedMethod" by simp
  from a d e show ?thesis by blast
qed

subsection \<open>Row counts\<close>

lemma wf_df_iff:
  fixes df :: dataframe
  shows "wf_df df \<longleftrightarrow> wf_cols (nrows df) (cols df)"
  by (auto simp: wf_df_def wf_cols_def column_names_def list_all_iff)

lemma set_set_column: "set (set_column k v al) \<subseteq> insert (k, v) (set al)"
  by (induction al) (auto split: if_splits)

lemma names_set_column:
  "map fst (set_column k v al) = (if k \<in> fst ` set al then map fst al else map fst al @ [k])"
proof (induction al)
  case Nil
  show ?case by simp
next
  case (Cons p al)
  show ?case
  proof (cases "k = fst p")
    case True
    then show ?thesis by (cases p) simp
  next
    case False
    have "k \<in> fst ` set (p # al) \<longleftrightarrow> k \<in> fst ` set al" using False by auto
    with False Cons show ?thesis by (cases p) (simp only: set_column.simps, auto)
  qed
qed

lemma wf_cols_set_column:
  assumes "wf_cols n cs" "col_len c = n"
  shows "wf_cols n (set_column k c cs)"
proof -
  have "distinct (map fst (set_column k c cs))"
    using assms(1) by (simp add: names_set_column wf_cols_def)
  moreover have "\<forall>(k', c') \<in> set (set_column k c cs). col_len c' = n"
    using assms set_set_column[of k c cs] by (auto simp: wf_cols_def)
  ultimately show ?thesis by (simp add: wf_cols_def)
qed

lemma wf_cols_lookup: "wf_cols n cs \<Longrightarrow> map_of cs k = Some c \<Longrightarrow> col_len c = n"
  by (auto simp: wf_cols_def dest: map_of_SomeD)

lemma wf_cols_map_numeric:
  assumes "wf_cols n cs" "\<And>xs. length (f xs) = length xs"
  shows "wf_cols n (map_numeric f cs)"
proof -
  have "\<forall>(k, c) \<in> set cs. col_len c = n \<Longrightarrow> \<forall>(k, c) \<in> set (map_numeric f cs). col_len c = n"
    by (auto simp: map_numeric_map assms(2) split: column.splits)
  with assms(1) show ?thesis by (simp add: wf_cols_def map_numeric_names)
qed

lemma dt_field_len:
  assumes "wf_cols n cs" "dt_field f k cs = Inr c"
  shows "col_len c = n"
proof -
  from assms(2) obtain ts where t: "map_of cs k = Some (TimeCol ts)" "c = NumCol (field_values f ts)"
    by (auto simp: dt_field_def split: option.splits column.splits)
  from wf_cols_lookup[OF assms(1) t(1)] t(2) show ?thesis
    by (simp add: length_field_values)
qed

lemma add_time_features_rows:
  fixes df :: dataframe
  assumes wf: "wf_df df" and run: "add_time_features parse tc df = Inr df'"
  shows "nrows df' = nrows df \<and> wf_df df'"
proof -
  let ?n = "nrows df"
  from run obtain c where c: "map_of (cols df) tc = Some c"
    by (auto simp: add_time_features_def split: option.splits)
  define cs0 where "cs0 = set_column tc (TimeCol (to_datetime_coerce parse c)) (cols df)"
  from run c obtain h d w m where
    h: "dt_field hour_of tc cs0 = Inr h"
    and d: "dt_field day_of tc (set_column ''hour'' h cs0) = Inr d"
    and w: "dt_field weekday_of tc (set_column ''day'' d (set_column ''hour'' h cs0)) = Inr w"
    and m: "dt_field month_of tc
              (set_column ''weekday'' w (set_column ''day'' d (set_column ''hour'' h cs0))) = Inr m"
    and df': "df' = df\<lparr>cols := set_column ''month'' m
              (set_column ''weekday'' w (set_column ''day'' d (set_column ''hour'' h cs0)))\<rparr>"
    by (auto simp: add_time_features_def Let_def cs0_def[symmetric] split: sum.splits)
  have w0: "wf_cols ?n cs0"
    unfolding cs0_def using wf wf_cols_lookup[OF _ c]
    by (intro wf_cols_set_column) (simp_all add: wf_df_iff length_to_datetime_coerce)
  have w1: "wf_cols ?n (set_column ''hour'' h cs0)"
    by (rule wf_cols_set_column[OF w0 dt_field_len[OF w0 h]])
  have w2: "wf_cols ?n (set_column ''day'' d (set_column ''hour'' h cs0))"
    by (rule wf_cols_set_column[OF w1 dt_field_len[OF w1 d]])
  have w3: "wf_cols ?n (set_column ''weekday'' w (set_column ''day'' d (set_column ''hour'' h cs0)))"
    by (rule wf_cols_set_column[OF w2 dt_field_len[OF w2 w]])
  have w4: "wf_cols ?n (set_column ''month'' m
              (set_column ''weekday'' w (set_column ''day'' d (set_column ''hour'' h cs0))))"
    by (rule wf_cols_set_column[OF w3 dt_field_len[OF w3 m]])
  from w4 show ?thesis by (simp add: df' wf_df_iff)
qed

lemma fill_missing_values_rows:
  fixes df :: dataframe
  assumes wf: "wf_df df" and run: "fill_missing_values method df = Inr df'"
  shows "nrows df' = nrows df \<and> wf_df df'"
proof -
  have "wf_cols (nrows df) (map_numeric (\<lambda>xs. fillna v xs) (cols df))" for v
    using wf by (intro wf_cols_map_numeric) (simp_all add: wf_df_iff fillna_def)
  moreover have "wf_cols (nrows df) (map_numeric (\<lambda>xs. fillna (g xs) xs) (cols df))" for g
    using wf by (intro wf_cols_map_numeric) (simp_all add: wf_df_iff fillna_def)
  ultimately show ?thesis
    using run wf by (auto simp: fill_missing_values_def wf_df_iff split: if_splits)
qed

lemma normalize_features_rows:
  fixes df :: dataframe
  assumes wf: "wf_df df" and run: "normalize_features ar method df = Inr (df', sc)"
  shows "nrows df' = nrows df \<and> wf_df df'"
proof -
  have "wf_cols (nrows df) (map_numeric (minmax_fit_transform ar) (cols df))"
    using wf by (intro wf_cols_map_numeric) (simp_all add: wf_df_iff minmax_fit_transform_def)
  moreover
  have "wf_cols (nrows df) (map_numeric (standard_fit_transform ar) (cols df))"
    using wf by (intro wf_cols_map_numeric) (simp_all add: wf_df_iff standard_fit_transform_def)
  ultimately show ?thesis
    using normalize_features_Inr(2,3,4)[OF run] by (auto simp: wf_df_iff)
qed

lemma detect_anomalies_rows:
  fixes df :: dataframe
  assumes wf: "wf_df df"
  shows "nrows (detect_anomalies t df) = nrows df \<and> wf_df (detect_anomalies t df)"
proof -
  have l: "\<forall>bs \<in> set (map (\<lambda>(n, xs). map (\<lambda>z. fgt z t) (z_scores xs)) (numeric_cols (cols df))).
             length bs = nrows df"
    using wf by (auto simp: numeric_cols_iff z_scores_def dest: wf_numeric_length)
  have "wf_cols (nrows df) (set_column ''is_anomaly'' (BoolCol bs) (cols df))"
    if "length bs = nrows df" for bs
    using wf that by (intro wf_cols_set_column) (simp_all add: wf_df_iff)
  from this[OF length_any_axis1[OF l]] this[of "replicate (nrows df) False"]
  show ?thesis
    by (simp add: detect_anomalies_def Let_def wf_df_iff)
qed

lemma length_np_clip: "length (np_clip lo hi xs) = length xs"
  by (simp add: np_clip_def Let_def)

lemma clip_columns_wf:
  assumes keeps: "keeps_length other"
  shows "wf_cols n cs \<Longrightarrow> clip_columns pct other lower upper names cs = Inr cs'
    \<Longrightarrow> wf_cols n cs'"
proof (induction names arbitrary: cs)
  case Nil
  then show ?case by simp
next
  case (Cons col rest)
  show ?case
  proof (cases "map_of cs col")
    case None
    with Cons show ?thesis by simp
  next
    case (Some c)
    from wf_cols_lookup[OF Cons.prems(1) Some] have len: "col_len c = n" .
    show ?thesis
    proof (cases "is_numeric c")
      case True
      then obtain xs where c: "c = NumCol xs" by (cases c) simp_all
      with Some Cons.prems(2) obtain lb ub where
        r: "clip_columns pct other lower upper rest
              (set_column col (NumCol (np_clip lb ub xs)) cs) = Inr cs'"
        by (auto split: sum.splits)
      from len c have "length xs = n" by simp
      then have "wf_cols n (set_column col (NumCol (np_clip lb ub xs)) cs)"
        using Cons.prems(1) by (intro wf_cols_set_column) (simp_all add: length_np_clip)
      from Cons.IH[OF this r] show ?thesis .
    next
      case False
      with Some Cons.prems(2) obtain c' where
        o: "other c lower upper = Inr c'"
        and r: "clip_columns pct other lower upper rest (set_column col c' cs) = Inr cs'"
        by (cases c) (auto split: sum.splits)
      from keeps o have "col_len c' = col_len c" unfolding keeps_length_def by blast
      with len have "wf_cols n (set_column col c' cs)"
        using Cons.prems(1) by (intro wf_cols_set_column) simp_all
      from Cons.IH[OF this r] show ?thesis .
    qed
  qed
qed

lemma clip_outliers_rows:
  fixes df :: dataframe
  assumes wf: "wf_df df" and run: "clip_outliers pct other names lower upper df = Inr df'"
  shows "nrows df' = nrows df \<and> (keeps_length other \<longrightarrow> wf_df df')"
proof -
  from run obtain cs' where c: "clip_columns pct other lower upper names (cols df) = Inr cs'"
    and df': "df' = df\<lparr>cols := cs'\<rparr>"
    by (auto simp: clip_outliers_def split: sum.splits)
  have "wf_df df'" if "keeps_length other"
    using clip_columns_wf[OF that _ c] wf by (simp add: df' wf_df_iff)
  then show ?thesis by (simp add: df')
qed

lemma truediv_len:
  "truediv p q = Inr c \<Longrightarrow> col_len p = n \<Longrightarrow> col_len q = n \<Longrightarrow> col_len c = n"
  by (induction p q rule: truediv.induct) auto

lemma create_kpis_rows:
  fixes df :: dataframe
  assumes wf: "wf_df df" and run: "create_kpis df = Inr df'"
  shows "nrows df' = nrows df \<and> wf_df df'"
proof (cases "map_of (cols df) ''mill_power_kwh''")
  case None
  with run wf show ?thesis by (simp add: create_kpis_def)
next
  case p: (Some p)
  show ?thesis
  proof (cases "map_of (cols df) ''throughput_tph''")
    case None
    with run wf p show ?thesis by (simp add: create_kpis_def)
  next
    case q: (Some q)
    from run p q obtain c where c: "truediv p q = Inr c"
      and df': "df' = df\<lparr>cols := set_column ''specific_power_consumption'' c (cols df)\<rparr>"
      by (auto simp: create_kpis_def split: sum.splits)
    have w: "wf_cols (nrows df) (cols df)" using wf by (simp add: wf_df_iff)
    from truediv_len[OF c wf_cols_lookup[OF w p] wf_cols_lookup[OF w q]]
    have "wf_cols (nrows df) (set_column ''specific_power_consumption'' c (cols df))"
      by (rule wf_cols_set_column[OF w])
    then show ?thesis by (simp add: df' wf_df_iff)
  qed
qed

text \<open>
  Claim C10. On a well-formed table, each of \<open>add_time_features\<close>,
  \<open>fill_missing_values\<close>, \<open>normalize_features\<close>, \<open>detect_anomalies\<close>, \<open>clip_outliers\<close>
  and \<open>create_kpis\<close> that returns a table returns one with the row count of its input,
  every column of which has exactly that many cells. For \<open>clip_outliers\<close> the columns
  clipped may be of any dtype; that a clipped column of a non-numeric dtype has as many
  cells as before is what the library's clip is taken to guarantee.
\<close>

theorem transforms_preserve_rows:
  fixes df :: dataframe
  assumes wf: "wf_df df"
  shows "(\<forall>df'. add_time_features parse tc df = Inr df' \<longrightarrow> nrows df' = nrows df \<and> wf_df df')
     \<and> (\<forall>df'. fill_missing_values fill_method df = Inr df' \<longrightarrow> nrows df' = nrows df \<and> wf_df df')
     \<and> (\<forall>df' sc. normalize_features ar method df = Inr (df', sc) \<longrightarrow>
            nrows df' = nrows df \<and> wf_df df')
     \<and> (nrows (detect_anomalies t df) = nrows df \<and> wf_df (detect_anomalies t df))
     \<and> (\<forall>df'. clip_outliers pct other names lower upper df = Inr df' \<longrightarrow>
            nrows df' = nrows df \<and> (keeps_length other \<longrightarrow> wf_df df'))
     \<and> (\<forall>df'. create_kpis df = Inr df' \<longrightarrow> nrows df' = nrows df \<and> wf_df df')"
  using add_time_features_rows[OF wf] fill_missing_values_rows[OF wf]
    normalize_features_rows[OF wf] detect_anomalies_rows[OF wf] clip_outliers_rows[OF wf]
    create_kpis_rows[OF wf]
  by blast


lemma clip_plant:
  "clip_columns sample_percentile sample_clip_other 1 99 [''mill_power_kwh'', ''absent'']
       (cols plant_df) =
     Inr [(''timestamp'', ObjCol [Some ''2025-09-17 23:10:01'', Some ''2024-02-29 00:00:00'', None]),
          (''mill_power_kwh'', NumCol [Fin 101, Fin 199, NaN]),
          (''throughput_tph'', NumCol [Fin 50, Fin 50, Fin 0])]"
proof -
  have s: "fsort [Fin 100, Fin 200] = [Fin 100, Fin 200]" by (simp add: fsort_def)
  have "\<lceil>(1::real) / 100\<rceil> = 1" "\<lceil>(99::real) / 100\<rceil> = 1"
    by (rule ceiling_unique; simp)+
  then have f: "nat \<lfloor>(1::real) / 100\<rfloor> = 0" "nat \<lceil>(1::real) / 100\<rceil> = 1"
    "nat \<lfloor>(99::real) / 100\<rfloor> = 0" "nat \<lceil>(99::real) / 100\<rceil> = 1"
    by simp_all
  have p: "sample_percentile [Fin 100, Fin 200] 1 = Inr (Fin 101)"
    "sample_percentile [Fin 100, Fin 200] 99 = Inr (Fin 199)"
    by (simp_all add: sample_percentile_def s f fsub_def Let_def)
  show ?thesis
    by (simp add: plant_df_def dropna_def p np_clip_def fmin_def fmax_def clip_lower_def
        clip_upper_def)
qed

lemma keeps_length_sample: "keeps_length sample_clip_other"
  unfolding keeps_length_def
proof (intro allI impI)
  fix c lo hi c'
  assume "sample_clip_other c lo hi = Inr c'"
  then show "col_len c' = col_len c"
    by (cases c) (auto simp: Let_def split: if_splits)
qed

lemma time_percentile_clock:
  "time_percentile [0, 100] 1 = 1" "time_percentile [0, 100] 99 = 99"
proof -
  have "\<lceil>(1::real) / 100\<rceil> = 1" "\<lceil>(99::real) / 100\<rceil> = 1"
    by (rule ceiling_unique; simp)+
  then have f: "nat \<lfloor>(1::real) / 100\<rfloor> = 0" "nat \<lceil>(1::real) / 100\<rceil> = 1"
    "nat \<lfloor>(99::real) / 100\<rfloor> = 0" "nat \<lceil>(99::real) / 100\<rceil> = 1"
    by simp_all
  show "time_percentile [0, 100] 1 = 1" "time_percentile [0, 100] 99 = 99"
    by (simp_all add: time_percentile_def f Let_def)
qed

lemma clip_clock:
  "clip_outliers sample_percentile sample_clip_other [''logged_at''] 1 99 clock_df =
     Inr \<lparr>nrows = 3,
          cols = [(''logged_at'', TimeCol [Some 1, Some 99, None]),
                  (''x'', NumCol [Fin 1, Fin 2, Fin 3])]\<rparr>"
proof -
  have "sample_clip_other (TimeCol [Some 0, Some 100, None]) 1 99
      = Inr (TimeCol [Some 1, Some 99, None])"
    by (simp add: List.map_filter_def time_percentile_clock)
  then show ?thesis
    by (simp add: clip_outliers_def clock_df_def del: sample_clip_other.simps)
qed

text \<open>
  The six transforms on a table of three rows, and the clip of a datetime column on
  another; each of them returns.
\<close>

theorem transforms_preserve_rows_witness:
  "wf_df plant_df
   \<and> (\<exists>df'. add_time_features sample_parse ''timestamp'' plant_df = Inr df'
          \<and> nrows df' = 3 \<and> wf_df df')
   \<and> (\<exists>df'. fill_missing_values ''mean'' plant_df = Inr df' \<and> nrows df' = 3 \<and> wf_df df')
   \<and> (\<exists>df' sc. normalize_features sample_scalers ''minmax'' plant_df = Inr (df', sc)
          \<and> nrows df' = 3 \<and> wf_df df')
   \<and> nrows (detect_anomalies (Fin 3) plant_df) = 3 \<and> wf_df (detect_anomalies (Fin 3) plant_df)
   \<and> keeps_length sample_clip_other
   \<and> (\<exists>df'. clip_outliers sample_percentile sample_clip_other
                [''mill_power_kwh'', ''absent''] 1 99 plant_df = Inr df'
          \<and> nrows df' = 3 \<and> wf_df df')
   \<and> (\<exists>df'. create_kpis plant_df = Inr df' \<and> nrows df' = 3 \<and> wf_df df')
   \<and> wf_df clock_df
   \<and> (\<exists>df'. clip_outliers sample_percentile sample_clip_other [''logged_at''] 1 99 clock_df
                = Inr df'
          \<and> map_of (cols df') ''logged_at'' = Some (TimeCol [Some 1, Some 99, None])
          \<and> nrows df' = 3 \<and> wf_df df')"
proof -
  have wf: "wf_df plant_df" by (simp add: wf_df_def plant_df_def column_names_def)
  have n: "nrows plant_df = 3" by (simp add: plant_df_def)
  note t = transforms_preserve_rows[OF wf, of sample_parse "''timestamp''" "''mean''"
      sample_scalers "''minmax''" "Fin 3" sample_percentile sample_clip_other
      "[''mill_power_kwh'', ''absent'']" 1 99]
  have c: "map_of (cols plant_df) ''timestamp''
      = Some (ObjCol [Some ''2025-09-17 23:10:01'', Some ''2024-02-29 00:00:00'', None])"
    by (simp add: plant_df_def)
  have a: "\<exists>df'. add_time_features sample_parse ''timestamp'' plant_df = Inr df'"
    using add_time_features_success[OF c, of sample_parse] by simp
  have f: "\<exists>df'. fill_missing_values ''mean'' plant_df = Inr df'"
    using fill_missing_values_run[of "''mean''" plant_df] by simp
  have z: "\<exists>df' sc. normalize_features sample_scalers ''minmax'' plant_df = Inr (df', sc)"
    by (simp add: normalize_features_def plant_df_def check_array_def is_inf_def)
  have k: "\<exists>df'. clip_outliers sample_percentile sample_clip_other
               [''mill_power_kwh'', ''absent''] 1 99 plant_df = Inr df'"
    by (simp only: clip_outliers_def clip_plant) simp
  have p: "map_of (cols plant_df) ''mill_power_kwh'' = Some (NumCol [Fin 100, Fin 200, NaN])"
    "map_of (cols plant_df) ''throughput_tph'' = Some (NumCol [Fin 50, Fin 50, Fin 0])"
    by (simp_all add: plant_df_def)
  have q: "\<exists>df'. create_kpis plant_df = Inr df'"
    using create_kpis_numeric[OF p] by simp
  note kl = keeps_length_sample
  from t a f z k q wf kl have plant:
   "(\<exists>df'. add_time_features sample_parse ''timestamp'' plant_df = Inr df'
          \<and> nrows df' = 3 \<and> wf_df df')
   \<and> (\<exists>df'. fill_missing_values ''mean'' plant_df = Inr df' \<and> nrows df' = 3 \<and> wf_df df')
   \<and> (\<exists>df' sc. normalize_features sample_scalers ''minmax'' plant_df = Inr (df', sc)
          \<and> nrows df' = 3 \<and> wf_df df')
   \<and> nrows (detect_anomalies (Fin 3) plant_df) = 3 \<and> wf_df (detect_anomalies (Fin 3) plant_df)
   \<and> (\<exists>df'. clip_outliers sample_percentile sample_clip_other
                [''mill_power_kwh'', ''absent''] 1 99 plant_df = Inr df'
          \<and> nrows df' = 3 \<and> wf_df df')
   \<and> (\<exists>df'. create_kpis plant_df = Inr df' \<and> nrows df' = 3 \<and> wf_df df')"
    unfolding n by blast
  have wfc: "wf_df clock_df" by (simp add: wf_df_def clock_df_def column_names_def)
  have nc: "nrows clock_df = 3" by (simp add: clock_df_def)
  define out where "out = \<lparr>nrows = 3,
          cols = [(''logged_at'', TimeCol [Some 1, Some 99, None]),
                  (''x'', NumCol [Fin 1, Fin 2, Fin 3])]\<rparr>"
  have run: "clip_outliers sample_percentile sample_clip_other [''logged_at''] 1 99 clock_df
      = Inr out"
    unfolding out_def by (rule clip_clock)
  have look: "map_of (cols out) ''logged_at'' = Some (TimeCol [Some 1, Some 99, None])"
    by (simp add: out_def)
  from transforms_preserve_rows[OF wfc, of sample_parse "''timestamp''" "''mean''"
      sample_scalers "''minmax''" "Fin 3" sample_percentile sample_clip_other
      "[''logged_at'']" 1 99] run kl
  have "nrows out = 3 \<and> wf_df out" unfolding nc by blast
  with run look have clock:
    "\<exists>df'. clip_outliers sample_percentile sample_clip_other [''logged_at''] 1 99 clock_df
                = Inr df'
          \<and> map_of (cols df') ''logged_at'' = Some (TimeCol [Some 1, Some 99, None])
          \<and> nrows df' = 3 \<and> wf_df df'"
    by (intro exI[of _ out]) simp
  from wf plant kl wfc clock show ?thesis by (intro conjI) (elim conjE, assumption)+
qed

subsection \<open>pipelines.py: preprocess_single\<close>

lemma validate_schema_plant:
  "validate_schema stage_schemas sample_parse plant_df ''stage4_cement_grinding''
     = Inl (MissingColumns [''blaine''])"
  by (simp add: validate_schema_def stage_schemas_def plant_df_def column_names_def)

text \<open>
  Claim C1, amended. In \<open>preprocess_single\<close> a validation failure is not passed over:
  whatever error \<open>validate_schema\<close> raises (no schema for the stage, missing declared
  columns, a column without a non-null cell, a timestamp that does not parse) is the
  result of \<open>preprocess_single\<close>, and no transform is applied. The two transform steps run
  exactly when validation passes, which for a registered stage means: every declared
  column is present, no column is empty, and the timestamp column, if any, parses.
\<close>

theorem preprocess_single_aborts:
  fixes df :: dataframe
  shows "(\<forall>e. validate_schema SCHEMAS parse df stage = Inl e \<longrightarrow>
            preprocess_single SCHEMAS parse ar df stage normalize_method = Inl e)
     \<and> (validate_schema SCHEMAS parse df stage = Inr True \<longrightarrow>
            preprocess_single SCHEMAS parse ar df stage normalize_method
              = (case add_time_features parse ''timestamp'' df of
                   Inl e \<Rightarrow> Inl e
                 | Inr df1 \<Rightarrow>
                     (case normalize_features ar normalize_method df1 of
                        Inl e \<Rightarrow> Inl e
                      | Inr (df2, sc) \<Rightarrow> Inr df2)))
     \<and> (validate_schema SCHEMAS parse df stage = Inl SchemaNotFound \<longleftrightarrow> SCHEMAS stage = None)
     \<and> (\<forall>sch. SCHEMAS stage = Some sch \<longrightarrow>
          (validate_schema SCHEMAS parse df stage = Inr True \<longleftrightarrow>
             (\<forall>col \<in> set (case schema_columns sch of None \<Rightarrow> [] | Some cs \<Rightarrow> cs).
                 col \<in> set (column_names df))
           \<and> empty_columns df = []
           \<and> (\<forall>c. map_of (cols df) ''timestamp'' = Some c \<longrightarrow> \<not> to_datetime_raises parse c)))"
proof (intro conjI allI impI)
  fix sch assume "SCHEMAS stage = Some sch"
  then show "validate_schema SCHEMAS parse df stage = Inr True \<longleftrightarrow>
             (\<forall>col \<in> set (case schema_columns sch of None \<Rightarrow> [] | Some cs \<Rightarrow> cs).
                 col \<in> set (column_names df))
           \<and> empty_columns df = []
           \<and> (\<forall>c. map_of (cols df) ''timestamp'' = Some c \<longrightarrow> \<not> to_datetime_raises parse c)"
    by (auto simp: validate_schema_def Let_def filter_empty_conv split: option.splits)
qed (auto simp: preprocess_single_def validate_schema_def Let_def split: option.splits sum.splits if_splits)

text \<open>
  Claim C1 as stated fails: a table that lacks a declared column is not processed; the
  validation error aborts the stage.
\<close>

theorem preprocess_single_counterexample:
  "preprocess_single stage_schemas sample_parse sample_scalers plant_df ''stage4_cement_grinding'' ''minmax''
     = Inl (MissingColumns [''blaine''])"
  by (simp add: preprocess_single_def validate_schema_plant)


text \<open>The same table under a schema it violates and under one it satisfies.\<close>

theorem preprocess_single_aborts_witness:
  "validate_schema stage_schemas sample_parse plant_df ''stage4_cement_grinding''
     = Inl (MissingColumns [''blaine''])
   \<and> preprocess_single stage_schemas sample_parse sample_scalers plant_df ''stage4_cement_grinding'' ''minmax''
     = Inl (MissingColumns [''blaine''])
   \<and> validate_schema stage_schemas sample_parse plant_df ''stage4_mill'' = Inr True
   \<and> (\<exists>df'. preprocess_single stage_schemas sample_parse sample_scalers plant_df ''stage4_mill'' ''minmax''
            = Inr df')"
proof -
  have v: "validate_schema stage_schemas sample_parse plant_df ''stage4_mill'' = Inr True"
    by (simp add: validate_schema_def stage_schemas_def plant_df_def column_names_def
        empty_columns_def sample_text_def upt_rec)
  have c: "map_of (cols plant_df) ''timestamp''
      = Some (ObjCol [Some ''2025-09-17 23:10:01'', Some ''2024-02-29 00:00:00'', None])"
    by (simp add: plant_df_def)
  have ne: "''timestamp'' \<noteq> ''hour''" "''timestamp'' \<noteq> ''day''" "''timestamp'' \<noteq> ''weekday''"
    by simp_all
  note a = add_time_features_success[OF c ne, of sample_parse]
  have n: "\<exists>df'. (case add_time_features sample_parse ''timestamp'' plant_df of
                   Inl e \<Rightarrow> Inl e
                 | Inr df1 \<Rightarrow>
                     (case normalize_features sample_scalers ''minmax'' df1 of
                        Inl e \<Rightarrow> Inl e
                      | Inr (df2, sc) \<Rightarrow> Inr df2)) = Inr df'"
    unfolding a
    by (simp add: normalize_features_def plant_df_def check_array_def is_inf_def
        field_values_def sample_text_def upt_rec)
  from preprocess_single_aborts[of stage_schemas sample_parse plant_df "''stage4_cement_grinding''" sample_scalers "''minmax''"]
    validate_schema_plant
  have 1: "preprocess_single stage_schemas sample_parse sample_scalers plant_df ''stage4_cement_grinding'' ''minmax''
     = Inl (MissingColumns [''blaine''])" by blast
  from preprocess_single_aborts[of stage_schemas sample_parse plant_df "''stage4_mill''" sample_scalers "''minmax''"] v n
  have 2: "\<exists>df'. preprocess_single stage_schemas sample_parse sample_scalers plant_df ''stage4_mill'' ''minmax''
            = Inr df'" by simp
  from validate_schema_plant 1 v 2 show ?thesis by blast
qed

end
